theory Spec2Isabelle
  imports Complex_Main "HOL-Library.Sublist"
begin

section \<open>JavaScript numbers\<close>

text \<open>
  A JavaScript number is modelled as \<open>NaN\<close>, an infinity or a finite value. Finite doubles
  are idealised as reals: the rounding of IEEE arithmetic, overflow and the sign of zero
  are not part of the model.
\<close>

datatype jsnum = NaN | Num real | PosInf | NegInf

text \<open>\<open>a <= b\<close> on numbers: every comparison with \<open>NaN\<close> is false.\<close>

fun js_le :: "jsnum \<Rightarrow> jsnum \<Rightarrow> bool" where
  "js_le NaN _ = False"
| "js_le _ NaN = False"
| "js_le (Num a) (Num b) = (a \<le> b)"
| "js_le NegInf _ = True"
| "js_le _ PosInf = True"
| "js_le PosInf _ = False"
| "js_le _ NegInf = False"

section \<open>Size categories\<close>

text \<open>The six labels that \<open>categorizeLotSize\<close> returns.\<close>

datatype size_category = Cat_0_025 | Cat_025_05 | Cat_05_1 | Cat_1_3 | Cat_3_5 | Cat_5_plus

fun category_label :: "size_category \<Rightarrow> string" where
  "category_label Cat_0_025 = ''0-0.25''"
| "category_label Cat_025_05 = ''0.25-0.5''"
| "category_label Cat_05_1 = ''0.5-1''"
| "category_label Cat_1_3 = ''1-3''"
| "category_label Cat_3_5 = ''3-5''"
| "category_label Cat_5_plus = ''5+''"

definition categorizeLotSize :: "jsnum \<Rightarrow> size_category" where
  "categorizeLotSize acres =
     (if js_le acres (Num (1/4)) then Cat_0_025
      else if js_le acres (Num (1/2)) then Cat_025_05
      else if js_le acres (Num 1) then Cat_05_1
      else if js_le acres (Num 3) then Cat_1_3
      else if js_le acres (Num 5) then Cat_3_5
      else Cat_5_plus)"

section \<open>Median and percentiles\<close>

text \<open>
  A value read from an array or computed from such reads: \<open>undefined\<close> when the index is
  outside the array, a number otherwise.
\<close>

datatype jsval = Undefined | Number jsnum

definition array_get :: "real list \<Rightarrow> int \<Rightarrow> real option" where
  "array_get xs i = (if 0 \<le> i \<and> i < int (length xs) then Some (xs ! nat i) else None)"

definition read_index :: "real list \<Rightarrow> int \<Rightarrow> jsval" where
  "read_index xs i = (case array_get xs i of None \<Rightarrow> Undefined | Some v \<Rightarrow> Number (Num v))"

text \<open>
  \<open>calculateMedian\<close>: the middle element of an array of odd length, the mean of the two
  middle elements otherwise. Arithmetic on \<open>undefined\<close> gives \<open>NaN\<close>.
\<close>

definition calculateMedian :: "real list \<Rightarrow> jsval" where
  "calculateMedian sortedArray =
     (let mid = int (length sortedArray div 2) in
      if length sortedArray mod 2 \<noteq> 0 then read_index sortedArray mid
      else (case (array_get sortedArray (mid - 1), array_get sortedArray mid) of
              (Some a, Some b) \<Rightarrow> Number (Num ((a + b) / 2))
            | _ \<Rightarrow> Number NaN))"

text \<open>
  \<open>calculatePercentile\<close>: linear interpolation between the two elements around
  \<open>index = percentile / 100 * (length - 1)\<close>.
\<close>

definition calculatePercentile :: "real list \<Rightarrow> real \<Rightarrow> jsval" where
  "calculatePercentile sortedArray percentile =
     (let index = (percentile / 100) * (real (length sortedArray) - 1);
          lower = \<lfloor>index\<rfloor>;
          upper = \<lceil>index\<rceil>
      in if lower = upper then read_index sortedArray lower
         else (case (array_get sortedArray lower, array_get sortedArray upper) of
                 (Some l, Some u) \<Rightarrow> Number (Num (l + (u - l) * (index - of_int lower)))
               | _ \<Rightarrow> Number NaN))"

text \<open>
  \<open>parseFloat(x.toFixed(f))\<close> on a finite number: \<open>toFixed\<close> rounds the magnitude to \<open>f\<close>
  decimals, a tie going up, and prints numbers of magnitude \<open>10^21\<close> or more unrounded.
\<close>

definition toFixed_parsed :: "nat \<Rightarrow> real \<Rightarrow> real" where
  "toFixed_parsed f x =
     (if \<bar>x\<bar> < 10 ^ 21
      then sgn x * of_int \<lfloor>\<bar>x\<bar> * 10 ^ f + 1 / 2\<rfloor> / 10 ^ f
      else x)"

section \<open>Ingestion of CSV rows\<close>

text \<open>
  Division of numbers. The divisor zero is taken as positive zero.
\<close>

fun js_div :: "jsnum \<Rightarrow> jsnum \<Rightarrow> jsnum" where
  "js_div NaN _ = NaN"
| "js_div _ NaN = NaN"
| "js_div (Num a) (Num b) =
     (if b = 0 then (if a = 0 then NaN else if 0 < a then PosInf else NegInf)
      else Num (a / b))"
| "js_div (Num a) _ = Num 0"
| "js_div PosInf (Num b) = (if 0 \<le> b then PosInf else NegInf)"
| "js_div NegInf (Num b) = (if 0 \<le> b then NegInf else PosInf)"
| "js_div _ _ = NaN"

text \<open>A number is falsy when it is zero or \<open>NaN\<close>.\<close>

fun js_falsy :: "jsnum \<Rightarrow> bool" where
  "js_falsy NaN = True"
| "js_falsy (Num a) = (a = 0)"
| "js_falsy _ = False"

text \<open>
  \<open>parseFloat\<close> on a string: leading white space is skipped, then the longest prefix that
  is a decimal literal (sign, digits, fraction, exponent) or a signed \<open>Infinity\<close> is read;
  the result is \<open>NaN\<close> when there is none. Strings are sequences of 8-bit characters, so
  the white space recognised is the ASCII one.
\<close>

definition is_space :: "char \<Rightarrow> bool" where
  "is_space c = (c \<in> set [CHR '' '', CHR 0x09, CHR 0x0A, CHR 0x0B, CHR 0x0C, CHR 0x0D])"

definition is_digit :: "char \<Rightarrow> bool" where
  "is_digit c = ((48::nat) \<le> of_char c \<and> of_char c \<le> (57::nat))"

definition digit_val :: "char \<Rightarrow> nat" where
  "digit_val c = of_char c - 48"

definition digits_val :: "string \<Rightarrow> nat" where
  "digits_val ds = foldl (\<lambda>n c. 10 * n + digit_val c) 0 ds"

text \<open>The exponent part \<open>e[+-]digits\<close> at the head of a string, 0 when there is none.\<close>

definition exponent_part :: "string \<Rightarrow> int" where
  "exponent_part s =
     (case s of
        [] \<Rightarrow> 0
      | c # r \<Rightarrow>
          if c = CHR ''e'' \<or> c = CHR ''E'' then
            (case r of
               [] \<Rightarrow> 0
             | d # r' \<Rightarrow>
                 if d = CHR ''-'' then
                   (if takeWhile is_digit r' = [] then 0
                    else - int (digits_val (takeWhile is_digit r')))
                 else if d = CHR ''+'' then int (digits_val (takeWhile is_digit r'))
                 else int (digits_val (takeWhile is_digit r)))
          else 0)"

definition unsigned_literal :: "string \<Rightarrow> real option" where
  "unsigned_literal s =
     (let ip = takeWhile is_digit s;
          r1 = dropWhile is_digit s;
          fp = (case r1 of c # r \<Rightarrow> if c = CHR ''.'' then takeWhile is_digit r else [] | [] \<Rightarrow> []);
          r2 = (case r1 of c # r \<Rightarrow> if c = CHR ''.'' then dropWhile is_digit r else r1 | [] \<Rightarrow> [])
      in if ip = [] \<and> fp = [] then None
         else Some ((real (digits_val ip) + real (digits_val fp) / 10 ^ length fp)
                    * 10 powi exponent_part r2))"

definition signed_literal :: "bool \<Rightarrow> string \<Rightarrow> jsnum" where
  "signed_literal negative s =
     (if prefix ''Infinity'' s then (if negative then NegInf else PosInf)
      else (case unsigned_literal s of
              None \<Rightarrow> NaN
            | Some v \<Rightarrow> Num (if negative then - v else v)))"

definition parseFloat :: "string \<Rightarrow> jsnum" where
  "parseFloat s =
     (case dropWhile is_space s of
        [] \<Rightarrow> NaN
      | c # r \<Rightarrow>
          if c = CHR ''-'' then signed_literal True r
          else if c = CHR ''+'' then signed_literal False r
          else signed_literal False (c # r))"

text \<open>\<open>parseFloat(x.toFixed(f))\<close> on any number.\<close>

fun js_toFixed_parsed :: "nat \<Rightarrow> jsnum \<Rightarrow> jsnum" where
  "js_toFixed_parsed f (Num x) = Num (toFixed_parsed f x)"
| "js_toFixed_parsed f v = v"

text \<open>
  A row as the CSV parser delivers it: a cell text for each header of the file. The
  processed listing carries its numbers in a type parameter: \<open>processRecord\<close> produces
  JavaScript numbers, the aggregation below reads finite prices.
\<close>

type_synonym csv_row = "string \<rightharpoonup> string"

record 'n sold_listing =
  address :: string
  zipCode :: string
  price :: 'n
  lotSizeSqft :: 'n
  acres :: 'n
  pricePerAcre :: 'n
  sizeCategory :: size_category
  saleDate :: string
  originalRecord :: csv_row

text \<open>\<open>a || b\<close> on cells: an absent or empty cell is falsy.\<close>

definition first_truthy :: "string option \<Rightarrow> string option \<Rightarrow> string option" where
  "first_truthy a b =
     (case a of
        Some s \<Rightarrow> if s \<noteq> [] then Some s else (case b of Some t \<Rightarrow> if t \<noteq> [] then Some t else None | None \<Rightarrow> None)
      | None \<Rightarrow> (case b of Some t \<Rightarrow> if t \<noteq> [] then Some t else None | None \<Rightarrow> None))"

definition number_cell :: "string option \<Rightarrow> string option \<Rightarrow> jsnum" where
  "number_cell a b = (case first_truthy a b of Some s \<Rightarrow> parseFloat s | None \<Rightarrow> Num 0)"

definition text_cell :: "string option \<Rightarrow> string option \<Rightarrow> string" where
  "text_cell a b = (case first_truthy a b of Some s \<Rightarrow> s | None \<Rightarrow> [])"

text \<open>\<open>processRecord\<close>; \<open>None\<close> is the \<open>null\<close> of a skipped row.\<close>

definition processRecord :: "csv_row \<Rightarrow> jsnum sold_listing option" where
  "processRecord record =
     (let price = number_cell (record ''PRICE'') (record ''Sale Price'');
          lotSizeSqft = number_cell (record ''LOT SIZE'') (record ''Lot Size'');
          zipCode = text_cell (record ''ZIP OR POSTAL CODE'') (record ''Zip Code'');
          address = text_cell (record ''ADDRESS'') (record ''Address'');
          saleDate = text_cell (record ''SOLD DATE'') (record ''Sale Date'')
      in if js_falsy price \<or> js_falsy lotSizeSqft \<or> zipCode = [] then None
         else
           (let acres = js_div lotSizeSqft (Num 43560);
                pricePerAcre = js_div price acres;
                sizeCategory = categorizeLotSize acres
            in Some \<lparr> address = address, zipCode = zipCode, price = price,
                      lotSizeSqft = lotSizeSqft,
                      acres = js_toFixed_parsed 4 acres,
                      pricePerAcre = js_toFixed_parsed 2 pricePerAcre,
                      sizeCategory = sizeCategory, saleDate = saleDate,
                      originalRecord = record \<rparr>))"

text \<open>
  \<open>processCsvFile\<close> on the rows of one file: the rows that \<open>processRecord\<close> keeps, in
  order.
\<close>

definition processCsvFile :: "csv_row list \<Rightarrow> jsnum sold_listing list" where
  "processCsvFile rows = List.map_filter processRecord rows"

section \<open>Aggregation into the market matrix\<close>

text \<open>
  \<open>generateMarketMatrix\<close> groups the prices in a plain object \<open>matrix = {}\<close> indexed by
  \<open>matrix[zipCode][sizeCategory]\<close>. A plain object inherits the properties of
  \<open>Object.prototype\<close>: reading \<open>matrix[k]\<close> for one of the names below yields the inherited
  function (or, for \<open>__proto__\<close>, \<open>Object.prototype\<close> itself), which is truthy, so no own
  property is created for such a key. The model keeps the own properties of \<open>matrix\<close>,
  the arrays stored on each inherited function and the arrays stored on
  \<open>Object.prototype\<close>, which every object inherits. A call starts with nothing stored on
  the inherited objects. The size category of a record is one of the six labels; its
  price per acre is a finite number.
\<close>

definition inherited_functions :: "string list" where
  "inherited_functions =
     [''constructor'', ''__defineGetter__'', ''__defineSetter__'', ''hasOwnProperty'',
      ''__lookupGetter__'', ''__lookupSetter__'', ''isPrototypeOf'', ''propertyIsEnumerable'',
      ''toString'', ''valueOf'', ''toLocaleString'']"

definition inherited_keys :: "string list" where
  "inherited_keys = ''__proto__'' # inherited_functions"

type_synonym price_groups = "size_category \<rightharpoonup> real list"

record matrix_heap =
  own :: "string \<rightharpoonup> price_groups"
  on_function :: "string \<Rightarrow> price_groups"
  on_prototype :: price_groups

definition empty_heap :: matrix_heap where
  "empty_heap = \<lparr> own = Map.empty, on_function = (\<lambda>_. Map.empty), on_prototype = Map.empty \<rparr>"

text \<open>The object that \<open>matrix[zipCode]\<close> denotes once the first \<open>if\<close> has run.\<close>

datatype holder = Own_object string | Inherited_function string | Object_prototype

definition holder_of :: "matrix_heap \<Rightarrow> string \<Rightarrow> matrix_heap \<times> holder" where
  "holder_of h z =
     (case own h z of
        Some _ \<Rightarrow> (h, Own_object z)
      | None \<Rightarrow>
          if z = ''__proto__'' then (h, Object_prototype)
          else if z \<in> set inherited_functions then (h, Inherited_function z)
          else (h\<lparr> own := (own h)(z \<mapsto> Map.empty) \<rparr>, Own_object z))"

fun own_groups :: "matrix_heap \<Rightarrow> holder \<Rightarrow> price_groups" where
  "own_groups h (Own_object z) = (case own h z of Some g \<Rightarrow> g | None \<Rightarrow> Map.empty)"
| "own_groups h (Inherited_function f) = on_function h f"
| "own_groups h Object_prototype = on_prototype h"

fun set_groups :: "matrix_heap \<Rightarrow> holder \<Rightarrow> price_groups \<Rightarrow> matrix_heap" where
  "set_groups h (Own_object z) g = h\<lparr> own := (own h)(z \<mapsto> g) \<rparr>"
| "set_groups h (Inherited_function f) g = h\<lparr> on_function := (on_function h)(f := g) \<rparr>"
| "set_groups h Object_prototype g = h\<lparr> on_prototype := g \<rparr>"

text \<open>
  One iteration of \<open>records.forEach\<close>: the array \<open>matrix[zipCode][sizeCategory]\<close> is the
  holder's own one, else the one inherited from \<open>Object.prototype\<close>, else a new array
  stored on the holder; the price is pushed onto it.
\<close>

definition group_record :: "matrix_heap \<Rightarrow> real sold_listing \<Rightarrow> matrix_heap" where
  "group_record h0 record =
     (let (h, t) = holder_of h0 (zipCode record);
          c = sizeCategory record;
          p = pricePerAcre record
      in case own_groups h t c of
           Some prices \<Rightarrow> set_groups h t ((own_groups h t)(c \<mapsto> prices @ [p]))
         | None \<Rightarrow>
             (case on_prototype h c of
                Some prices \<Rightarrow> h\<lparr> on_prototype := (on_prototype h)(c \<mapsto> prices @ [p]) \<rparr>
              | None \<Rightarrow> set_groups h t ((own_groups h t)(c \<mapsto> [p]))))"

record bucket_stats =
  count :: nat
  median :: jsval
  mean :: real
  minimum :: jsval
  maximum :: jsval
  q1 :: jsval
  q3 :: jsval

text \<open>The statistics of one group; the prices are sorted ascending first.\<close>

definition bucket_of :: "real list \<Rightarrow> bucket_stats option" where
  "bucket_of pushed =
     (let prices = sort pushed; n = length prices
      in if 0 < n then
           Some \<lparr> count = n,
                  median = calculateMedian prices,
                  mean = toFixed_parsed 2 (foldl (+) 0 prices / real n),
                  minimum = read_index prices 0,
                  maximum = read_index prices (int n - 1),
                  q1 = calculatePercentile prices 25,
                  q3 = calculatePercentile prices 75 \<rparr>
         else None)"

text \<open>
  \<open>generateMarketMatrix\<close>: the result has the own keys of \<open>matrix\<close>, and under each of them
  the own keys of \<open>matrix[zipCode]\<close> whose array is not empty.
\<close>

definition generateMarketMatrix ::
  "real sold_listing list \<Rightarrow> (string \<rightharpoonup> (size_category \<rightharpoonup> bucket_stats))" where
  "generateMarketMatrix records =
     (let matrix = own (foldl group_record empty_heap records)
      in (\<lambda>zipCode. case matrix zipCode of
            None \<Rightarrow> None
          | Some groups \<Rightarrow>
              Some (\<lambda>sizeCategory. case groups sizeCategory of
                      None \<Rightarrow> None
                    | Some prices \<Rightarrow> bucket_of prices)))"

text \<open>The bucket of a ZIP code and a size category in the result, if there is one.\<close>

definition bucket :: "real sold_listing list \<Rightarrow> string \<Rightarrow> size_category \<Rightarrow> bucket_stats option" where
  "bucket records z c =
     (case generateMarketMatrix records z of None \<Rightarrow> None | Some cats \<Rightarrow> cats c)"

section \<open>Query partitioner\<close>

text \<open>
  The ranges of the configuration. Prices are whole dollars; a price range without upper
  bound has \<open>max: null\<close>, a size range without price cap has no \<open>maxPrice\<close>. The fields
  \<open>label\<close>, \<open>min\<close> and \<open>max\<close> carry the name of their range, since \<open>min\<close> and \<open>max\<close> are
  constants of HOL.
\<close>

record size_range =
  size_label :: string
  size_min :: real
  size_max :: real
  maxPrice :: "int option"

record price_range =
  price_label :: string
  price_min :: int
  price_max :: "int option"

text \<open>
  \<open>getPriceRangesForSize\<close>: a cap that is absent or zero is falsy and leaves the list as
  it is; otherwise the filter keeps a range when its \<open>max\<close> is \<open>null\<close> or at most the cap.
\<close>

definition getPriceRangesForSize :: "size_range \<Rightarrow> price_range list \<Rightarrow> price_range list" where
  "getPriceRangesForSize sizeRange priceRanges =
     (case maxPrice sizeRange of
        Some cap \<Rightarrow>
          if cap \<noteq> 0
          then filter (\<lambda>price. case price_max price of None \<Rightarrow> True | Some m \<Rightarrow> m \<le> cap)
                 priceRanges
          else priceRanges
      | None \<Rightarrow> priceRanges)"

section \<open>Strings and JSON\<close>

text \<open>
  Decimal digits of a number, as a template literal and \<open>JSON.stringify\<close> print an integer
  below \<open>10^21\<close>.
\<close>

definition digit_char :: "nat \<Rightarrow> char" where
  "digit_char n = ''0123456789abcdef'' ! (n mod 16)"

fun show_nat :: "nat \<Rightarrow> string" where
  "show_nat n =
     (if n < 10 then [digit_char n]
      else show_nat (n div 10) @ [digit_char (n mod 10)])"

declare show_nat.simps [simp del]

definition show_int :: "int \<Rightarrow> string" where
  "show_int i = (if i < 0 then CHR ''-'' # show_nat (nat (- i)) else show_nat (nat i))"

text \<open>\<open>haystack.includes(needle)\<close>.\<close>

fun str_includes :: "string \<Rightarrow> string \<Rightarrow> bool" where
  "str_includes [] needle = (needle = [])"
| "str_includes (c # cs) needle = (prefix needle (c # cs) \<or> str_includes cs needle)"

text \<open>\<open>parts.join(separator)\<close>.\<close>

fun join :: "string \<Rightarrow> string list \<Rightarrow> string" where
  "join separator [] = []"
| "join separator [x] = x"
| "join separator (x # y # ys) = x @ separator @ join separator (y # ys)"

text \<open>
  \<open>JSON.stringify\<close> on the flat objects that are logged: the values are strings, integers
  or \<open>null\<close>, the fields are printed in insertion order.
\<close>

datatype json = JString string | JNumber int | JNull

definition json_char :: "char \<Rightarrow> string" where
  "json_char c =
     (if c = CHR 0x22 then [CHR 0x5C, CHR 0x22]
      else if c = CHR 0x5C then [CHR 0x5C, CHR 0x5C]
      else if c = CHR 0x08 then [CHR 0x5C, CHR ''b'']
      else if c = CHR 0x0C then [CHR 0x5C, CHR ''f'']
      else if c = CHR 0x0A then [CHR 0x5C, CHR ''n'']
      else if c = CHR 0x0D then [CHR 0x5C, CHR ''r'']
      else if c = CHR 0x09 then [CHR 0x5C, CHR ''t'']
      else if (of_char c :: nat) < 32
        then [CHR 0x5C, CHR ''u'', CHR ''0'', CHR ''0'',
              digit_char (of_char c div 16), digit_char (of_char c mod 16)]
      else [c])"

definition json_string :: "string \<Rightarrow> string" where
  "json_string s = [CHR 0x22] @ concat (map json_char s) @ [CHR 0x22]"

fun json_value :: "json \<Rightarrow> string" where
  "json_value (JString s) = json_string s"
| "json_value (JNumber i) = show_int i"
| "json_value JNull = ''null''"

type_synonym log_fields = "(string \<times> json) list"

definition json_object :: "log_fields \<Rightarrow> string" where
  "json_object members =
     ''{'' @ join '','' (map (\<lambda>(k, v). json_string k @ '':'' @ json_value v) members) @ ''}''"

section \<open>Ledger\<close>

text \<open>
  The ledger is the file \<open>downloads.log\<close>: \<open>None\<close> while it does not exist, its text
  otherwise. \<open>logDownload\<close> appends one line, the JSON of \<open>{timestamp, ...downloadInfo}\<close>:
  the time stamp comes first and a \<open>timestamp\<close> of \<open>downloadInfo\<close> replaces its value.
\<close>

type_synonym ledger = "string option"

definition logEntry :: "string \<Rightarrow> log_fields \<Rightarrow> log_fields" where
  "logEntry iso_now downloadInfo =
     (''timestamp'', (case map_of downloadInfo ''timestamp'' of
                        Some v \<Rightarrow> v | None \<Rightarrow> JString iso_now))
     # filter (\<lambda>(k, v). k \<noteq> ''timestamp'') downloadInfo"

definition logDownload :: "ledger \<Rightarrow> string \<Rightarrow> log_fields \<Rightarrow> ledger" where
  "logDownload logFile iso_now downloadInfo =
     Some ((case logFile of None \<Rightarrow> [] | Some content \<Rightarrow> content)
           @ json_object (logEntry iso_now downloadInfo) @ [CHR 0x0A])"

text \<open>
  \<open>createSafeFilename\<close>: every character of a label outside \<open>[a-zA-Z0-9.-]\<close> becomes an
  underscore.
\<close>

definition safe_char :: "char \<Rightarrow> char" where
  "safe_char c =
     (let n = (of_char c :: nat)
      in if (97 \<le> n \<and> n \<le> 122) \<or> (65 \<le> n \<and> n \<le> 90) \<or> (48 \<le> n \<and> n \<le> 57)
            \<or> c = CHR ''.'' \<or> c = CHR ''-''
         then c else CHR ''_'')"

definition createSafeFilename :: "string \<Rightarrow> size_range \<Rightarrow> price_range \<Rightarrow> nat \<Rightarrow> string" where
  "createSafeFilename zip_code sizeRange priceRange ts =
     zip_code @ ''_'' @ map safe_char (size_label sizeRange) @ ''_''
       @ map safe_char (price_label priceRange) @ ''_'' @ show_nat ts @ ''.csv''"

text \<open>\<open>isAlreadyDownloaded\<close>: the text of the ledger contains the search key.\<close>

definition isAlreadyDownloaded :: "ledger \<Rightarrow> string \<Rightarrow> size_range \<Rightarrow> price_range \<Rightarrow> bool" where
  "isAlreadyDownloaded logFile zip_code sizeRange priceRange =
     (case logFile of
        None \<Rightarrow> False
      | Some logContent \<Rightarrow>
          str_includes logContent (zip_code @ ''_'' @ size_label sizeRange @ ''_'' @ price_label priceRange))"

section \<open>Batch download loop\<close>

text \<open>
  \<open>buildRedfinUrl\<close>. The county is fixed in the path; a size maximum of 1000 stands for no
  upper limit, and a zero or absent bound is falsy and printed as the empty string.
\<close>

definition buildRedfinUrl ::
  "string \<Rightarrow> size_range \<Rightarrow> price_range \<Rightarrow> string \<Rightarrow> string \<Rightarrow> string" where
  "buildRedfinUrl state sizeRange priceRange propertyType soldDateRange =
     (let baseUrl = ''https://www.redfin.com/county/482/'' @ state @ ''/Okaloosa-County/filter'';
          minSqft = \<lfloor>size_min sizeRange * 43560\<rfloor>;
          maxSqft = (if size_max sizeRange = 1000 then None
                     else Some \<lfloor>size_max sizeRange * 43560\<rfloor>);
          maxPrice = (case price_max priceRange of
                        None \<Rightarrow> []
                      | Some m \<Rightarrow> if m = 0 then [] else show_int m);
          filters =
            (if propertyType = ''Land'' then [''property-type=land''] else [])
            @ (if soldDateRange = ''12mo'' then [''include=sold-1yr''] else [])
            @ [case maxSqft of
                 None \<Rightarrow> ''lot-size='' @ show_int minSqft @ ''+-sqft''
               | Some m \<Rightarrow>
                   if m = 0 then ''lot-size='' @ show_int minSqft @ ''+-sqft''
                   else ''lot-size='' @ show_int minSqft @ ''-'' @ show_int m @ ''-sqft'']
            @ [''price='' @ show_int (price_min priceRange) @ ''-'' @ maxPrice]
      in baseUrl @ ''/'' @ join '','' filters)"

text \<open>
  What the browser and the file system answer while one query is processed. An operation
  that can throw answers with \<open>Inl\<close> of the error message or with \<open>Some\<close> message; waiting
  on a timer inside the \<open>try\<close> block and appending to the ledger are taken not to fail.
  \<open>handleRedfinLogin\<close> is seen from outside: it returns a boolean or throws.
\<close>

record page_responses =
  goto :: "nat \<Rightarrow> string option"
  result_count :: nat
  download_button :: bool
  click :: "string option"
  login_prompt :: bool
  login :: "string + bool"
  button_after_login :: bool
  click_after_login :: "string option"
  download_after_login :: "string + string option"
  rename_after_login :: "string option"
  download :: "string + string option"
  rename :: "string option"
  now_ms :: nat
  now_iso :: string

text \<open>
  The navigation loop: at most \<open>maxAttempts = 3\<close> calls of \<open>page.goto\<close>; the result is the
  message of the error thrown after the last failed attempt, if all fail.
\<close>

function navigate :: "(nat \<Rightarrow> string option) \<Rightarrow> nat \<Rightarrow> string option" where
  "navigate answers attempts =
     (if attempts < 3 then
        (case answers (attempts + 1) of
           None \<Rightarrow> None
         | Some message \<Rightarrow>
             if attempts + 1 < 3 then navigate answers (attempts + 1)
             else Some (''Failed to navigate after 3 attempts: '' @ message))
      else None)"
  by pat_completeness auto
termination
  by (relation "measure (\<lambda>(answers, attempts). 3 - attempts)") auto

declare navigate.simps [simp del]

text \<open>
  How the processing of one query ended, the entry it logged (the argument of
  \<open>logDownload\<close>) and the pause in milliseconds made before the next query.
\<close>

datatype outcome = Skipped | No_results | No_download_button | Downloaded | Failed string

record report =
  outcome :: outcome
  logged :: "log_fields option"
  pause :: nat

text \<open>A file path is truthy unless it is \<open>null\<close> or empty.\<close>

definition truthy_path :: "string option \<Rightarrow> bool" where
  "truthy_path p = (case p of None \<Rightarrow> False | Some s \<Rightarrow> s \<noteq> [])"

definition success_entry ::
  "string \<Rightarrow> size_range \<Rightarrow> price_range \<Rightarrow> nat \<Rightarrow> string \<Rightarrow> string \<Rightarrow> log_fields" where
  "success_entry county sizeRange priceRange resultCount filename searchUrl =
     [(''county'', JString county), (''sizeRange'', JString (size_label sizeRange)),
      (''priceRange'', JString (price_label priceRange)),
      (''resultCount'', JNumber (int resultCount)), (''status'', JString ''success''),
      (''filename'', JString filename), (''url'', JString searchUrl)]"

definition count_entry ::
  "string \<Rightarrow> size_range \<Rightarrow> price_range \<Rightarrow> nat \<Rightarrow> string \<Rightarrow> string \<Rightarrow> log_fields" where
  "count_entry county sizeRange priceRange resultCount status searchUrl =
     [(''county'', JString county), (''sizeRange'', JString (size_label sizeRange)),
      (''priceRange'', JString (price_label priceRange)),
      (''resultCount'', JNumber (int resultCount)), (''status'', JString status),
      (''url'', JString searchUrl)]"

definition error_entry ::
  "string \<Rightarrow> size_range \<Rightarrow> price_range \<Rightarrow> string \<Rightarrow> string \<Rightarrow> log_fields" where
  "error_entry county sizeRange priceRange message searchUrl =
     [(''county'', JString county), (''sizeRange'', JString (size_label sizeRange)),
      (''priceRange'', JString (price_label priceRange)),
      (''status'', JString ''error''), (''error'', JString message),
      (''url'', JString searchUrl)]"

text \<open>
  The body of the \<open>try\<close> block for one query. \<open>Inl message\<close> is an exception thrown inside
  the block; no entry has been logged when that happens. \<open>Inr\<close> is the normal end of the
  block, by \<open>continue\<close> or by reaching its last statement.
\<close>

definition try_query ::
  "string \<Rightarrow> ledger \<Rightarrow> size_range \<Rightarrow> price_range \<Rightarrow> string \<Rightarrow> page_responses
     \<Rightarrow> string + report" where
  "try_query county logFile sizeRange priceRange searchUrl page =
     (if isAlreadyDownloaded logFile county sizeRange priceRange
      then Inr \<lparr> outcome = Skipped, logged = None, pause = 0 \<rparr>
      else case navigate (goto page) 0 of
        Some message \<Rightarrow> Inl message
      | None \<Rightarrow>
          if result_count page = 0
          then Inr \<lparr> outcome = No_results,
                     logged = Some (count_entry county sizeRange priceRange 0
                                      ''no_results'' searchUrl),
                     pause = 0 \<rparr>
          else if \<not> download_button page
          then Inr \<lparr> outcome = No_download_button,
                     logged = Some (count_entry county sizeRange priceRange (result_count page)
                                      ''no_download_button'' searchUrl),
                     pause = 0 \<rparr>
          else case click page of
            Some message \<Rightarrow> Inl message
          | None \<Rightarrow>
              if login_prompt page then
                (case login page of
                   Inl message \<Rightarrow> Inl message
                 | Inr loginSuccess \<Rightarrow>
                     if loginSuccess then
                       (if button_after_login page then
                          (case click_after_login page of
                             Some message \<Rightarrow> Inl message
                           | None \<Rightarrow>
                               (case download_after_login page of
                                  Inl message \<Rightarrow> Inl message
                                | Inr downloadPath \<Rightarrow>
                                    if truthy_path downloadPath then
                                      (case rename_after_login page of
                                         Some message \<Rightarrow> Inl message
                                       | None \<Rightarrow>
                                           Inr \<lparr> outcome = Downloaded,
                                                 logged = Some (success_entry county sizeRange
                                                   priceRange (result_count page)
                                                   (createSafeFilename county sizeRange priceRange
                                                      (now_ms page))
                                                   searchUrl),
                                                 pause = 5000 \<rparr>)
                                    else Inl ''Download failed after login - no file path''))
                        else Inl ''Download button not found after login'')
                     else Inl ''Login failed'')
              else
                (case download page of
                   Inl message \<Rightarrow> Inl message
                 | Inr downloadPath \<Rightarrow>
                     if truthy_path downloadPath then
                       (case rename page of
                          Some message \<Rightarrow> Inl message
                        | None \<Rightarrow>
                            Inr \<lparr> outcome = Downloaded,
                                  logged = Some (success_entry county sizeRange priceRange
                                    (result_count page)
                                    (createSafeFilename county sizeRange priceRange (now_ms page))
                                    searchUrl),
                                  pause = 15000 \<rparr>)
                     else Inl ''Download failed - no file path''))"

text \<open>
  The \<open>catch\<close> block: the error is logged with status \<open>error\<close> and the loop waits 10
  seconds before it continues.
\<close>

definition catch_query ::
  "string \<Rightarrow> size_range \<Rightarrow> price_range \<Rightarrow> string \<Rightarrow> string \<Rightarrow> report" where
  "catch_query county sizeRange priceRange searchUrl message =
     \<lparr> outcome = Failed message,
       logged = Some (error_entry county sizeRange priceRange message searchUrl),
       pause = 10000 \<rparr>"

record run_state =
  logFile :: ledger
  totalDownloads :: nat
  successfulDownloads :: nat
  skippedDownloads :: nat
  reports :: "report list"

definition initial_state :: "ledger \<Rightarrow> run_state" where
  "initial_state l =
     \<lparr> logFile = l, totalDownloads = 0, successfulDownloads = 0, skippedDownloads = 0,
       reports = [] \<rparr>"

text \<open>
  One iteration of the inner loop: \<open>try\<close>, \<open>catch\<close>, the ledger and the counters. The
  field \<open>reports\<close> of the state is the trace of the run, one report per query reached.
\<close>

definition process_query ::
  "string \<Rightarrow> string \<Rightarrow> run_state \<Rightarrow> size_range \<times> price_range \<Rightarrow> page_responses \<Rightarrow> run_state" where
  "process_query county state s query page =
     (let sizeRange = fst query; priceRange = snd query;
          searchUrl = buildRedfinUrl state sizeRange priceRange ''Land'' ''12mo'';
          r = (case try_query county (logFile s) sizeRange priceRange searchUrl page of
                 Inl message \<Rightarrow> catch_query county sizeRange priceRange searchUrl message
               | Inr r \<Rightarrow> r)
      in \<lparr> logFile = (case logged r of
                        None \<Rightarrow> logFile s
                      | Some entry \<Rightarrow> logDownload (logFile s) (now_iso page) entry),
           totalDownloads = (case outcome r of
                               Downloaded \<Rightarrow> totalDownloads s + 1
                             | Failed _ \<Rightarrow> totalDownloads s + 1
                             | _ \<Rightarrow> totalDownloads s),
           successfulDownloads = (case outcome r of
                                    Downloaded \<Rightarrow> successfulDownloads s + 1
                                  | _ \<Rightarrow> successfulDownloads s),
           skippedDownloads = (case outcome r of
                                 Skipped \<Rightarrow> skippedDownloads s + 1
                               | _ \<Rightarrow> skippedDownloads s),
           reports = reports s @ [r] \<rparr>)"

text \<open>
  The report of one query, as \<open>process_query\<close> computes it.
\<close>

definition query_report ::
  "string \<Rightarrow> string \<Rightarrow> ledger \<Rightarrow> size_range \<times> price_range \<Rightarrow> page_responses \<Rightarrow> report" where
  "query_report county state l query page =
     (let sizeRange = fst query; priceRange = snd query;
          searchUrl = buildRedfinUrl state sizeRange priceRange ''Land'' ''12mo''
      in case try_query county l sizeRange priceRange searchUrl page of
           Inl message \<Rightarrow> catch_query county sizeRange priceRange searchUrl message
         | Inr r \<Rightarrow> r)"

text \<open>
  The download promise. Before the click, the \<open>try\<close> block creates
  \<open>downloadPromise = context.waitForEvent('download', { timeout: 60000 })\<close>. The promise is
  awaited in one place only, after the login branch, which is reached when the click
  returns and no login prompt is found. On every other way out of the block from there
  (the click throws, or the login branch is entered, which ends by \<open>continue\<close> or by a
  \<open>throw\<close>) the promise is left without a handler. A download event of the browser context
  fulfils it; if none arrives within 60000 ms of its creation it rejects. Nothing handles
  that rejection and the script installs no \<open>unhandledRejection\<close> handler, so the Node.js
  process (version 15 or later) ends at that moment, with whatever the ledger holds by
  then.

  After a successful login the block creates a second promise of the same kind,
  \<open>newDownloadPromise\<close>, clicks again and awaits it; that one is left without a handler
  when the second click throws.

  A download event is taken to arrive in an iteration exactly when the answer to its
  wait for the download is a download (\<open>Inr\<close>); an answer \<open>Inl\<close> there is read as the wait
  timing out, and the click that brings up the login prompt starts no download.
\<close>

definition promise_created ::
  "string \<Rightarrow> ledger \<Rightarrow> size_range \<Rightarrow> price_range \<Rightarrow> page_responses \<Rightarrow> bool" where
  "promise_created county l sizeRange priceRange page =
     (\<not> isAlreadyDownloaded l county sizeRange priceRange
      \<and> navigate (goto page) 0 = None \<and> result_count page \<noteq> 0 \<and> download_button page)"

definition promise_awaited :: "page_responses \<Rightarrow> bool" where
  "promise_awaited page = (click page = None \<and> \<not> login_prompt page)"

definition second_promise_abandoned :: "page_responses \<Rightarrow> bool" where
  "second_promise_abandoned page =
     (click page = None \<and> login_prompt page
      \<and> (case login page of
            Inl message \<Rightarrow> False
          | Inr loginSuccess \<Rightarrow>
              loginSuccess \<and> button_after_login page \<and> click_after_login page \<noteq> None))"

definition download_event_seen :: "page_responses \<Rightarrow> bool" where
  "download_event_seen page =
     (click page = None
      \<and> (if login_prompt page then
            (case login page of
               Inl message \<Rightarrow> False
             | Inr loginSuccess \<Rightarrow>
                 loginSuccess \<and> button_after_login page \<and> click_after_login page = None
                 \<and> (case download_after_login page of
                       Inl message \<Rightarrow> False
                     | Inr downloadPath \<Rightarrow> True))
          else (case download page of Inl message \<Rightarrow> False | Inr downloadPath \<Rightarrow> True)))"

text \<open>
  The clock of one iteration, in milliseconds from the start of the iteration: when the
  download promise is created, when the second one is (read only if the iteration gets
  there), when the download event arrives (read only if one arrives), and when the
  iteration calls \<open>logDownload\<close> or, if it logs nothing, leaves by \<open>continue\<close>. The pause
  of the iteration follows the call of \<open>logDownload\<close>. The field
  \<open>catch_wait\<close> is the answer of \<open>page.waitForTimeout(10000)\<close> in the \<open>catch\<close> block: it
  throws when the page or the browser has been closed, and the exception then leaves
  \<open>downloadRedfinData\<close>, since the \<open>catch\<close> block is not itself guarded.
\<close>

record iteration_clock =
  until_promise :: nat
  until_second_promise :: nat
  until_event :: nat
  until_log :: nat
  catch_wait :: "string option"

text \<open>
  The state of a run with its clock: the time in milliseconds since the loop started
  and the times at which the download promises left without a handler will reject.
\<close>

record timed_run =
  progress :: run_state
  clock :: nat
  pending :: "nat list"

text \<open>
  How a run ends: the loop finishes, the process is ended by the unhandled rejection of
  a download promise, or an exception (with its message) leaves the loop.
\<close>

datatype run_end = Completed | Unhandled_rejection | Thrown string

fun earliest :: "nat list \<Rightarrow> nat option" where
  "earliest [] = None"
| "earliest (d # ds) = (case earliest ds of None \<Rightarrow> Some d | Some e \<Rightarrow> Some (min d e))"

text \<open>
  One iteration on the clock. A download event fulfils the promises whose time has not
  come. If a promise rejects before the iteration is over the process ends there; the
  entry of the iteration is in the ledger if \<open>logDownload\<close> was called before that moment.
  Otherwise the iteration ends as \<open>process_query\<close> says, or with the exception of the
  wait in the \<open>catch\<close> block. The second component is \<open>None\<close> when the loop goes on.
\<close>

definition timed_query ::
  "string \<Rightarrow> string \<Rightarrow> timed_run \<Rightarrow> size_range \<times> price_range \<Rightarrow> page_responses
     \<Rightarrow> iteration_clock \<Rightarrow> timed_run \<times> run_end option" where
  "timed_query county state s query page ticks =
     (let started = clock s;
          r = query_report county state (logFile (progress s)) query page;
          created = promise_created county (logFile (progress s)) (fst query) (snd query) page;
          event = (if created \<and> download_event_seen page
                   then Some (started + until_event ticks) else None);
          fulfilled = (\<lambda>deadline. case event of None \<Rightarrow> False | Some e \<Rightarrow> e < deadline);
          own = started + until_promise ticks + 60000;
          second = started + until_second_promise ticks + 60000;
          deadlines = filter (\<lambda>d. \<not> fulfilled d) (pending s)
                      @ (if created \<and> \<not> promise_awaited page \<and> \<not> fulfilled own
                         then [own] else [])
                      @ (if created \<and> second_promise_abandoned page then [second] else []);
          logTime = started + until_log ticks;
          thrown = (case outcome r of Failed message \<Rightarrow> catch_wait ticks | _ \<Rightarrow> None);
          leaves = (case thrown of None \<Rightarrow> logTime + pause r | Some message \<Rightarrow> logTime);
          rejection = (case earliest deadlines of
                         None \<Rightarrow> None
                       | Some d \<Rightarrow> if d < leaves then Some d else None)
      in case rejection of
           Some d \<Rightarrow>
             (\<lparr> progress = (if logTime < d
                             then process_query county state (progress s) query page
                             else progress s),
                clock = d, pending = deadlines \<rparr>,
              Some Unhandled_rejection)
         | None \<Rightarrow>
             (\<lparr> progress = process_query county state (progress s) query page,
                clock = leaves, pending = deadlines \<rparr>,
              map_option Thrown thrown))"

text \<open>
  The queries of a run, in the order of the two nested loops, and the run itself. The
  answers of the browser and of the clock are given per query, by the position of the
  query in the run. What becomes of the promises still pending when the browser is
  closed after the last query is not part of the model.
\<close>

record config =
  county :: string
  state :: string
  sizeRanges :: "size_range list"
  priceRanges :: "price_range list"

definition queries :: "config \<Rightarrow> (size_range \<times> price_range) list" where
  "queries cfg =
     concat (map (\<lambda>sizeRange. map (Pair sizeRange)
                    (getPriceRangesForSize sizeRange (priceRanges cfg)))
               (sizeRanges cfg))"

fun run_queries ::
  "string \<Rightarrow> string \<Rightarrow> (nat \<Rightarrow> page_responses) \<Rightarrow> (nat \<Rightarrow> iteration_clock) \<Rightarrow> nat
     \<Rightarrow> timed_run \<Rightarrow> (size_range \<times> price_range) list \<Rightarrow> timed_run \<times> run_end" where
  "run_queries cty st pages clocks i s [] = (s, Completed)"
| "run_queries cty st pages clocks i s (q # qs) =
     (case snd (timed_query cty st s q (pages i) (clocks i)) of
        Some ended \<Rightarrow> (fst (timed_query cty st s q (pages i) (clocks i)), ended)
      | None \<Rightarrow>
          run_queries cty st pages clocks (i + 1)
            (fst (timed_query cty st s q (pages i) (clocks i))) qs)"

definition downloadRedfinData ::
  "config \<Rightarrow> ledger \<Rightarrow> (nat \<Rightarrow> page_responses) \<Rightarrow> (nat \<Rightarrow> iteration_clock)
     \<Rightarrow> timed_run \<times> run_end" where
  "downloadRedfinData cfg l pages clocks =
     run_queries (county cfg) (state cfg) pages clocks 0
       \<lparr> progress = initial_state l, clock = 0, pending = [] \<rparr> (queries cfg)"

section \<open>Capture of one download (simpleDownload.js)\<close>

text \<open>
  \<open>downloadFileFromUrl\<close>. The answer of the server is given per URL and per cookie header.
  Status 200 pipes the body to the target file and resolves; 301 and 302 start the function
  again on the \<open>Location\<close> header, without cookies, and settle as that call settles; any
  other status, a request error and the 60 second timeout reject. On a redirect without
  \<open>Location\<close> the inner call receives \<open>undefined\<close> as its URL: \<open>url.startsWith\<close> throws a
  \<open>TypeError\<close> inside the promise executor, the inner promise rejects with it and so does
  the outer one (the message is the one of V8). The chain of redirects is followed with
  fuel: \<open>None\<close> is a chain that is longer than the fuel.
\<close>

datatype http_answer =
    Response nat string "string option" string
  | Request_error string
  | No_response

datatype fetch_result = Resolved string string | Rejected string

type_synonym cookie = "string \<times> string"

definition cookie_header :: "cookie list \<Rightarrow> string" where
  "cookie_header cookies = join ''; '' (map (\<lambda>(name, v). name @ ''='' @ v) cookies)"

fun downloadFileFromUrl ::
  "nat \<Rightarrow> (string \<Rightarrow> string \<Rightarrow> http_answer) \<Rightarrow> string \<Rightarrow> string \<Rightarrow> cookie list
     \<Rightarrow> fetch_result option" where
  "downloadFileFromUrl 0 server url targetPath cookies = None"
| "downloadFileFromUrl (Suc fuel) server url targetPath cookies =
     (case server url (cookie_header cookies) of
        Response statusCode statusMessage location body \<Rightarrow>
          if statusCode = 200 then Some (Resolved targetPath body)
          else if statusCode = 302 \<or> statusCode = 301 then
            (case location of
               None \<Rightarrow>
                 Some (Rejected ''Cannot read properties of undefined (reading 'startsWith')'')
             | Some redirectUrl \<Rightarrow> downloadFileFromUrl fuel server redirectUrl targetPath [])
          else Some (Rejected (''HTTP '' @ show_nat statusCode @ '': '' @ statusMessage))
      | Request_error message \<Rightarrow> Some (Rejected message)
      | No_response \<Rightarrow> Some (Rejected ''Download timeout''))"

text \<open>
  The value of \<open>interceptedCsvData\<close> when the script looks at it: \<open>null\<close>, the text of the
  response, or its buffer when reading the text failed. The empty text is falsy, a
  buffer is an object and truthy.
\<close>

datatype intercepted = Nothing | Text string | Buffer string

fun intercepted_truthy :: "intercepted \<Rightarrow> bool" where
  "intercepted_truthy Nothing = False"
| "intercepted_truthy (Text s) = (s \<noteq> [])"
| "intercepted_truthy (Buffer b) = True"

fun intercepted_bytes :: "intercepted \<Rightarrow> string" where
  "intercepted_bytes Nothing = []"
| "intercepted_bytes (Text s) = s"
| "intercepted_bytes (Buffer b) = b"

text \<open>
  The \<open>download\<close> event of the browser: none within the timeout, or a download whose
  \<open>path()\<close> throws or returns a path or \<open>null\<close>; the bytes of the downloaded file are the
  last argument.
\<close>

datatype download_event = No_download | Download "string + string option" string

text \<open>
  What the browser, the server and the clock answer from the click on the download
  button on. Screenshots, timers, writing a file and appending to the ledger are taken
  not to fail; \<open>handleRedfinLogin\<close> and \<open>extractDownloadUrls\<close> are seen from outside.
\<close>

record capture_answers =
  first_click :: "string option"
  intercepted_first :: intercepted
  csv_url_first :: "string option"
  login_shown :: bool
  login_outcome :: "string + bool"
  button_shown_after_login :: bool
  second_click :: "string option"
  intercepted_second :: intercepted
  csv_url_second :: "string option"
  download_event :: download_event
  renamed :: "string option"
  page_closed :: bool
  download_urls :: "(string \<times> string) list"
  session_cookies :: "string + cookie list"
  server :: "string \<Rightarrow> string \<Rightarrow> http_answer"
  browser_page :: "string \<Rightarrow> string + string \<times> string option"
  iso_time :: string

record capture =
  entries :: "log_fields list"
  files :: "(string \<times> string) list"
  downloadSuccess :: bool

definition no_capture :: capture where
  "no_capture = \<lparr> entries = [], files = [], downloadSuccess = False \<rparr>"

definition add_success :: "capture \<Rightarrow> log_fields \<Rightarrow> string \<Rightarrow> string \<Rightarrow> capture" where
  "add_success c entry filename bytes =
     \<lparr> entries = entries c @ [entry], files = files c @ [(filename, bytes)],
       downloadSuccess = True \<rparr>"

text \<open>\<open>new Date().toISOString().replace(/[:.]/g, '-')\<close>.\<close>

definition file_stamp :: "string \<Rightarrow> string" where
  "file_stamp isoString =
     map (\<lambda>c. if c = CHR '':'' \<or> c = CHR ''.'' then CHR ''-'' else c) isoString"

definition json_nullable :: "string option \<Rightarrow> json" where
  "json_nullable u = (case u of None \<Rightarrow> JNull | Some s \<Rightarrow> JString s)"

definition capture_entry ::
  "string \<Rightarrow> string \<Rightarrow> string \<Rightarrow> string \<Rightarrow> (string \<times> json) list \<Rightarrow> log_fields" where
  "capture_entry status filename stamp method extra =
     [(''county'', JString ''Okaloosa''), (''filters'', JString ''Land, Sold 1 year''),
      (''status'', JString status), (''filename'', JString filename),
      (''timestamp'', JString stamp), (''method'', JString method)] @ extra"

definition failed_entry :: "string \<Rightarrow> string \<Rightarrow> string \<Rightarrow> log_fields" where
  "failed_entry message stamp url =
     [(''county'', JString ''Okaloosa''), (''filters'', JString ''Land, Sold 1 year''),
      (''status'', JString ''failed''), (''error'', JString message),
      (''timestamp'', JString stamp), (''method'', JString ''direct_url''),
      (''originalUrl'', JString url)]"

text \<open>The check \<open>if (interceptedCsvData)\<close> with the saving and logging it guards.\<close>

definition save_intercepted ::
  "capture \<Rightarrow> intercepted \<Rightarrow> string option \<Rightarrow> string \<Rightarrow> capture" where
  "save_intercepted c interceptedCsvData csvUrl isoString =
     (if intercepted_truthy interceptedCsvData then
        add_success c
          (capture_entry ''success''
             (''okaloosa-land-sold-1yr-intercepted-'' @ file_stamp isoString @ ''.csv'')
             (file_stamp isoString) ''network_interception''
             [(''originalUrl'', json_nullable csvUrl)])
          (''okaloosa-land-sold-1yr-intercepted-'' @ file_stamp isoString @ ''.csv'')
          (intercepted_bytes interceptedCsvData)
      else c)"

text \<open>
  The wait for the traditional download: a download with a truthy path is moved to the
  raw data directory and logged as a success.
\<close>

definition traditional_download :: "capture \<Rightarrow> capture_answers \<Rightarrow> capture" where
  "traditional_download c a =
     (case download_event a of
        No_download \<Rightarrow> c
      | Download path bytes \<Rightarrow>
          (case path of
             Inl message \<Rightarrow> c
           | Inr downloadPath \<Rightarrow>
               if truthy_path downloadPath then
                 (case renamed a of
                    Some message \<Rightarrow> c
                  | None \<Rightarrow>
                      add_success c
                        (capture_entry ''success''
                           (''okaloosa-land-sold-1yr-'' @ file_stamp (iso_time a) @ ''.csv'')
                           (file_stamp (iso_time a)) ''traditional'' [])
                        (''okaloosa-land-sold-1yr-'' @ file_stamp (iso_time a) @ ''.csv'')
                        bytes)
               else c))"

text \<open>The extension of the \<open>n\<close>-th file fetched by URL.\<close>

definition after_last_dot :: "string \<Rightarrow> string" where
  "after_last_dot s = rev (takeWhile (\<lambda>c. c \<noteq> CHR ''.'') (rev s))"

definition fileExtension :: "string \<Rightarrow> string \<Rightarrow> string" where
  "fileExtension url filename =
     (if str_includes url ''/api/gis-csv'' \<or> str_includes url ''.csv'' then ''csv''
      else if str_includes filename ''.'' then after_last_dot filename
      else ''csv'')"

text \<open>
  The fallback after a rejected fetch with \<open>403\<close> in its message for a CSV API URL: the
  browser opens the URL and reads the text of the page. When the text is not blank the
  block goes on to \<open>fs.writeFileSync(targetPath, csvContent)\<close>; but \<open>targetPath\<close>, \<open>filename\<close>
  and \<open>timestamp\<close> are constants of the \<open>try\<close> block and this is its \<open>catch\<close> block, so the
  statement throws a \<open>ReferenceError\<close> before anything is written or logged. The \<open>try\<close>
  block of the fallback is \<open>browser_direct_try\<close>, with \<open>Inl\<close> for an exception thrown inside
  it; its \<open>catch\<close> prints the error and goes on.
\<close>

definition js_trim :: "string \<Rightarrow> string" where
  "js_trim s = rev (dropWhile is_space (rev (dropWhile is_space s)))"

definition browser_direct_try ::
  "capture \<Rightarrow> capture_answers \<Rightarrow> string \<Rightarrow> string + capture" where
  "browser_direct_try c a url =
     (case browser_page a url of
        Inl message \<Rightarrow> Inl message
      | Inr (pageContent, csvContent) \<Rightarrow>
          if str_includes pageContent ''property_type'' \<or> str_includes pageContent ''address''
             \<or> str_includes pageContent '',''
          then (case csvContent of
                  None \<Rightarrow> Inr c
                | Some text \<Rightarrow>
                    if text \<noteq> [] \<and> 0 < length (js_trim text)
                    then Inl ''targetPath is not defined''
                    else Inr c)
          else Inr c)"

definition browser_direct :: "capture \<Rightarrow> capture_answers \<Rightarrow> string \<Rightarrow> capture" where
  "browser_direct c a url =
     (case browser_direct_try c a url of
        Inl browserDownloadError \<Rightarrow> c
      | Inr c' \<Rightarrow> c')"

text \<open>
  One iteration of the loop over the extracted URLs, for the URL at index \<open>i\<close>. A
  rejected fetch is logged with status \<open>failed\<close> unless an earlier URL has succeeded.
  \<open>None\<close> is an iteration that does not come back from the fetch: a redirect chain longer
  than the fuel.
\<close>

definition fetch_one ::
  "nat \<Rightarrow> capture_answers \<Rightarrow> cookie list \<Rightarrow> nat \<Rightarrow> capture \<Rightarrow> string \<Rightarrow> string
     \<Rightarrow> capture option" where
  "fetch_one fuel a cookies i c url name =
     (if str_includes url ''redfin.com'' \<and> \<not> str_includes url ''/api/gis-csv''
         \<and> \<not> str_includes url ''.csv'' \<and> \<not> prefix ''blob:'' url
      then Some c
      else
        (let filename = ''okaloosa-land-sold-1yr-'' @ file_stamp (iso_time a) @ ''-''
               @ show_nat (i + 1) @ ''.'' @ fileExtension url name
         in case downloadFileFromUrl fuel (server a) url filename cookies of
              None \<Rightarrow> None
            | Some result \<Rightarrow>
                (case result of
                   Resolved targetPath body \<Rightarrow>
                     Some (add_success c
                             (capture_entry ''success'' filename (file_stamp (iso_time a))
                                ''direct_url'' [(''originalUrl'', JString url)])
                             filename body)
                 | Rejected message \<Rightarrow>
                     (let c1 = (if str_includes message ''403''
                                   \<and> str_includes url ''/api/gis-csv''
                                then browser_direct c a url else c)
                      in Some (if \<not> downloadSuccess c1
                               then c1 \<lparr> entries := entries c1
                                      @ [failed_entry message (file_stamp (iso_time a)) url] \<rparr>
                               else c1)))))"

fun fetch_urls ::
  "nat \<Rightarrow> capture_answers \<Rightarrow> cookie list \<Rightarrow> nat \<Rightarrow> capture \<Rightarrow> (string \<times> string) list
     \<Rightarrow> capture option" where
  "fetch_urls fuel a cookies i c [] = Some c"
| "fetch_urls fuel a cookies i c (info # others) =
     (case fetch_one fuel a cookies i c (fst info) (snd info) of
        None \<Rightarrow> None
      | Some c' \<Rightarrow> fetch_urls fuel a cookies (i + 1) c' others)"

text \<open>
  \<open>simpleDownload\<close> from the click on the download button to the end of the capture:
  interception after the first click, login and second click, traditional download,
  then the fetch of the extracted URLs when nothing has succeeded.
\<close>

definition after_login :: "capture_answers \<Rightarrow> string + capture" where
  "after_login a =
     (if login_shown a then
        (case login_outcome a of
           Inl message \<Rightarrow> Inl message
         | Inr loginSuccess \<Rightarrow>
             if loginSuccess \<and> button_shown_after_login a then
               (case second_click a of
                  Some message \<Rightarrow> Inr no_capture
                | None \<Rightarrow>
                    Inr (save_intercepted no_capture (intercepted_second a) (csv_url_second a)
                           (iso_time a)))
             else Inr no_capture)
      else Inr no_capture)"

definition simpleDownload :: "nat \<Rightarrow> capture_answers \<Rightarrow> capture option" where
  "simpleDownload fuel a =
     (case first_click a of
        Some message \<Rightarrow> Some no_capture
      | None \<Rightarrow>
          if intercepted_truthy (intercepted_first a)
          then Some (save_intercepted no_capture (intercepted_first a) (csv_url_first a)
                       (iso_time a))
          else
            (case after_login a of
               Inl message \<Rightarrow> Some no_capture
             | Inr c0 \<Rightarrow>
                 (let c1 = traditional_download c0 a
                  in if \<not> downloadSuccess c1 then
                       (if page_closed a then Some c1
                        else if download_urls a \<noteq> [] then
                          (case session_cookies a of
                             Inl message \<Rightarrow> Some c1
                           | Inr cs \<Rightarrow> fetch_urls fuel a cs 0 c1 (download_urls a))
                        else Some c1)
                     else Some c1)))"

text \<open>
  \<open>directDownload.js\<close>, from the request to the CSV API on. Status 200 pipes the body to
  the target file; when the stream has finished the script reads the size of the file
  and logs the download as a success only if the size is greater than zero. Any other
  status, a request error and the 30 second timeout reject. The result is the list of
  entries logged, or \<open>Inl\<close> of the message of the rejection.
\<close>

definition directDownload_request :: "http_answer \<Rightarrow> string \<Rightarrow> string + log_fields list" where
  "directDownload_request answer isoString =
     (case answer of
        Response statusCode statusMessage location body \<Rightarrow>
          if statusCode = 200 then
            Inr (if 0 < length body then
                   [[(''county'', JString ''Okaloosa''), (''filters'', JString ''Land, Sold 90 days''),
                     (''status'', JString ''success''),
                     (''filename'', JString (''okaloosa-land-sold-90d-'' @ file_stamp isoString
                                              @ ''.csv'')),
                     (''timestamp'', JString (file_stamp isoString)),
                     (''fileSize'', JNumber (int (length body))),
                     (''method'', JString ''direct-api'')]]
                 else [])
          else Inl (''API request failed: '' @ show_nat statusCode)
      | Request_error message \<Rightarrow> Inl message
      | No_response \<Rightarrow> Inl ''Request timeout'')"

section \<open>Auxiliary notions for the proofs\<close>

text \<open>The value of the interpolation at a real index of an array.\<close>

definition interpolate :: "real list \<Rightarrow> real \<Rightarrow> real" where
  "interpolate s x = s ! nat \<lfloor>x\<rfloor> + (s ! nat \<lceil>x\<rceil> - s ! nat \<lfloor>x\<rfloor>) * (x - of_int \<lfloor>x\<rfloor>)"

text \<open>The prices of the records of one ZIP code and size category, in input order.\<close>

definition prices_of :: "real sold_listing list \<Rightarrow> string \<Rightarrow> size_category \<Rightarrow> real list" where
  "prices_of records z c =
     map pricePerAcre (filter (\<lambda>r. zipCode r = z \<and> sizeCategory r = c) records)"

text \<open>A processed listing with the three fields the aggregation reads.\<close>

definition listing :: "string \<Rightarrow> size_category \<Rightarrow> real \<Rightarrow> real sold_listing" where
  "listing z c p =
     \<lparr> address = [], zipCode = z, price = 1, lotSizeSqft = 1, acres = 1, pricePerAcre = p,
       sizeCategory = c, saleDate = [], originalRecord = Map.empty \<rparr>"

text \<open>The text of the ledger and the line that \<open>logDownload\<close> appends.\<close>

definition ledger_text :: "ledger \<Rightarrow> string" where
  "ledger_text l = (case l of None \<Rightarrow> [] | Some content \<Rightarrow> content)"

definition log_line :: "string \<Rightarrow> log_fields \<Rightarrow> string" where
  "log_line iso_now downloadInfo = json_object (logEntry iso_now downloadInfo) @ [CHR 0x0A]"

text \<open>Example ranges, browser answers and configurations.\<close>

definition small_lots :: size_range where
  "small_lots = \<lparr> size_label = ''0-0.25'', size_min = 0, size_max = 0.25, maxPrice = Some 190000 \<rparr>"

definition large_lots :: size_range where
  "large_lots = \<lparr> size_label = ''5+'', size_min = 5, size_max = 1000, maxPrice = None \<rparr>"

definition mid_lots :: size_range where
  "mid_lots = \<lparr> size_label = ''1-3'', size_min = 1, size_max = 3, maxPrice = None \<rparr>"

definition up_to_50k :: price_range where
  "up_to_50k = \<lparr> price_label = ''0-50000'', price_min = 0, price_max = Some 50000 \<rparr>"

definition up_to_5k :: price_range where
  "up_to_5k = \<lparr> price_label = ''0-5000'', price_min = 0, price_max = Some 5000 \<rparr>"

definition above_190k :: price_range where
  "above_190k = \<lparr> price_label = ''190000+'', price_min = 190000, price_max = None \<rparr>"

definition smooth_page :: page_responses where
  "smooth_page =
     \<lparr> goto = (\<lambda>attempt. None), result_count = 12, download_button = True, click = None,
       login_prompt = False, login = Inr True, button_after_login = True,
       click_after_login = None, download_after_login = Inr (Some ''/tmp/download.csv''),
       rename_after_login = None, download = Inr (Some ''/tmp/download.csv''), rename = None,
       now_ms = 1700000000000, now_iso = ''2023-11-14T22:13:20.000Z'' \<rparr>"

definition login_failing_page :: page_responses where
  "login_failing_page = smooth_page \<lparr> login_prompt := True, login := Inr False \<rparr>"

text \<open>
  A run of three queries, and two ways it can meet the login prompt: every login fails,
  or the first one only. On the clock \<open>steady_clock\<close> every iteration creates its download
  promise after 20 seconds, sees its download (if one arrives) after 30 seconds and
  calls \<open>logDownload\<close> after 45 seconds; on \<open>quick_clock\<close> these are 5, 6 and 7 seconds.
  On \<open>closed_page_clock\<close> the wait in the \<open>catch\<close> block throws; \<open>closed_page\<close> is a page that
  has been closed by the time of the click.
\<close>

definition two_price_config :: config where
  "two_price_config =
     \<lparr> county = ''Okaloosa'', state = ''FL'', sizeRanges = [mid_lots],
       priceRanges = [up_to_5k, up_to_50k] \<rparr>"

definition three_price_config :: config where
  "three_price_config =
     \<lparr> county = ''Okaloosa'', state = ''FL'', sizeRanges = [mid_lots],
       priceRanges = [up_to_5k, up_to_50k, above_190k] \<rparr>"

definition closed_page :: page_responses where
  "closed_page =
     smooth_page \<lparr> click := Some ''locator.click: Target page, context or browser has been closed'' \<rparr>"

definition every_login_fails :: "nat \<Rightarrow> page_responses" where
  "every_login_fails i = login_failing_page"

definition first_login_fails :: "nat \<Rightarrow> page_responses" where
  "first_login_fails i = (if i = 0 then login_failing_page else smooth_page)"

definition steady_clock :: "nat \<Rightarrow> iteration_clock" where
  "steady_clock i =
     \<lparr> until_promise = 20000, until_second_promise = 40000, until_event = 30000,
       until_log = 45000, catch_wait = None \<rparr>"

definition quick_clock :: "nat \<Rightarrow> iteration_clock" where
  "quick_clock i =
     \<lparr> until_promise = 5000, until_second_promise = 5500, until_event = 6000,
       until_log = 7000, catch_wait = None \<rparr>"

definition closed_page_clock :: "nat \<Rightarrow> iteration_clock" where
  "closed_page_clock i =
     \<lparr> until_promise = 5000, until_second_promise = 5500, until_event = 6000,
       until_log = 7000,
       catch_wait = Some ''page.waitForTimeout: Target page, context or browser has been closed'' \<rparr>"

text \<open>
  What is read off a finished run: how it ended, the outcomes of the queries reported,
  the number of lines of the ledger and the time on the clock.
\<close>

definition run_summary :: "timed_run \<times> run_end \<Rightarrow> run_end \<times> outcome list \<times> nat \<times> nat" where
  "run_summary result =
     (snd result, map outcome (reports (progress (fst result))),
      length (filter (\<lambda>c. c = CHR 0x0A) (ledger_text (logFile (progress (fst result))))),
      clock (fst result))"

text \<open>Example answers for the capture of one download.\<close>

definition quiet_answers :: capture_answers where
  "quiet_answers =
     \<lparr> first_click = None, intercepted_first = Nothing, csv_url_first = None,
       login_shown = False, login_outcome = Inr True, button_shown_after_login = True,
       second_click = None, intercepted_second = Nothing, csv_url_second = None,
       download_event = No_download, renamed = None, page_closed = False,
       download_urls = [], session_cookies = Inr [],
       server = (\<lambda>url header. No_response),
       browser_page = (\<lambda>url. Inl ''closed''),
       iso_time = ''2024-01-02T03:04:05.678Z'' \<rparr>"

definition empty_download :: capture_answers where
  "empty_download = quiet_answers \<lparr> download_event := Download (Inr (Some ''/tmp/a.csv'')) [] \<rparr>"

definition empty_reply :: capture_answers where
  "empty_reply =
     quiet_answers \<lparr> download_urls := [(''https://www.redfin.com/stingray/api/gis-csv?al=3'', ''a.csv'')],
                     server := (\<lambda>url header. Response 200 ''OK'' None []) \<rparr>"

definition empty_interception :: capture_answers where
  "empty_interception = quiet_answers \<lparr> intercepted_first := Text [] \<rparr>"

definition interception_after_login :: "string \<Rightarrow> capture_answers" where
  "interception_after_login text =
     quiet_answers \<lparr> login_shown := True, intercepted_second := Text text,
                     csv_url_second := Some ''https://www.redfin.com/stingray/api/gis-csv?al=3'' \<rparr>"

section \<open>Verified properties\<close>

subsection \<open>Size categories and percentiles\<close>

text \<open>
  C7. The size category is a function of the acreage alone, with breakpoints that belong
  to the lower band: at most 0.25 acres is \<open>0-0.25\<close>, above 0.25 and at most 0.5 is
  \<open>0.25-0.5\<close>, above 0.5 and at most 1 is \<open>0.5-1\<close>, above 1 and at most 3 is \<open>1-3\<close>,
  above 3 and at most 5 is \<open>3-5\<close>, and above 5 is \<open>5+\<close>. In particular 0.25 acres is
  \<open>0-0.25\<close> and 0.2500001 acres is \<open>0.25-0.5\<close>.
\<close>

theorem categorizeLotSize_bands:
  "(a \<le> 0.25 \<longrightarrow> category_label (categorizeLotSize (Num a)) = ''0-0.25'')
   \<and> (0.25 < a \<and> a \<le> 0.5 \<longrightarrow> category_label (categorizeLotSize (Num a)) = ''0.25-0.5'')
   \<and> (0.5 < a \<and> a \<le> 1 \<longrightarrow> category_label (categorizeLotSize (Num a)) = ''0.5-1'')
   \<and> (1 < a \<and> a \<le> 3 \<longrightarrow> category_label (categorizeLotSize (Num a)) = ''1-3'')
   \<and> (3 < a \<and> a \<le> 5 \<longrightarrow> category_label (categorizeLotSize (Num a)) = ''3-5'')
   \<and> (5 < a \<longrightarrow> category_label (categorizeLotSize (Num a)) = ''5+'')
   \<and> category_label (categorizeLotSize (Num 0.25)) = ''0-0.25''
   \<and> category_label (categorizeLotSize (Num 0.2500001)) = ''0.25-0.5''"
  by (simp add: categorizeLotSize_def)

theorem categorizeLotSize_bands_witness:
  "(0.1::real) \<le> 0.25 \<and> category_label (categorizeLotSize (Num 0.1)) = ''0-0.25''
   \<and> (0.25::real) < 0.3 \<and> (0.3::real) \<le> 0.5
   \<and> category_label (categorizeLotSize (Num 0.3)) = ''0.25-0.5''
   \<and> (0.5::real) < 0.75 \<and> (0.75::real) \<le> 1
   \<and> category_label (categorizeLotSize (Num 0.75)) = ''0.5-1''
   \<and> (1::real) < 2 \<and> (2::real) \<le> 3 \<and> category_label (categorizeLotSize (Num 2)) = ''1-3''
   \<and> (3::real) < 4 \<and> (4::real) \<le> 5 \<and> category_label (categorizeLotSize (Num 4)) = ''3-5''
   \<and> (5::real) < 6 \<and> category_label (categorizeLotSize (Num 6)) = ''5+''"
  using categorizeLotSize_bands [of "0.1"] categorizeLotSize_bands [of "0.3"]
    categorizeLotSize_bands [of "0.75"] categorizeLotSize_bands [of 2]
    categorizeLotSize_bands [of 4] categorizeLotSize_bands [of 6]
  by simp

lemma floor_eq_ceiling_frac: "\<lfloor>i::real\<rfloor> = \<lceil>i\<rceil> \<Longrightarrow> i - of_int \<lfloor>i\<rfloor> = 0"
proof -
  assume "\<lfloor>i\<rfloor> = \<lceil>i\<rceil>"
  then have "real_of_int \<lfloor>i\<rfloor> = real_of_int \<lceil>i\<rceil>" by (rule arg_cong)
  then show ?thesis using of_int_floor_le [of i] le_of_int_ceiling [of i] by linarith
qed

lemma percentile_index_range:
  assumes "a \<noteq> []" "0 \<le> p" "p \<le> 100"
  defines "i \<equiv> (p / 100) * (real (length a) - 1)"
  shows "0 \<le> \<lfloor>i\<rfloor>" "\<lceil>i\<rceil> < int (length a)" "0 \<le> i" "i \<le> real (length a) - 1"
proof -
  have n: "1 \<le> real (length a)" using assms(1) by (cases a) auto
  show i0: "0 \<le> i" unfolding i_def using assms n by simp
  have "p / 100 \<le> 1" using assms by simp
  then have "(p / 100) * (real (length a) - 1) \<le> 1 * (real (length a) - 1)"
    using n by (intro mult_right_mono) auto
  then show i1: "i \<le> real (length a) - 1" by (simp add: i_def)
  show "0 \<le> \<lfloor>i\<rfloor>" using i0 by simp
  have "i \<le> of_int (int (length a) - 1)" using i1 by simp
  then have "\<lceil>i\<rceil> \<le> int (length a) - 1" by (simp only: ceiling_le_iff)
  then show "\<lceil>i\<rceil> < int (length a)" by simp
qed

lemma calculatePercentile_in_range:
  assumes "0 \<le> \<lfloor>i\<rfloor>" "\<lceil>i\<rceil> < int (length a)"
    and "i = (p / 100) * (real (length a) - 1)"
  shows "calculatePercentile a p =
      Number (Num (a ! nat \<lfloor>i\<rfloor> + (a ! nat \<lceil>i\<rceil> - a ! nat \<lfloor>i\<rfloor>) * (i - of_int \<lfloor>i\<rfloor>)))"
proof -
  have fc: "\<lfloor>i\<rfloor> \<le> \<lceil>i\<rceil>" by (rule floor_le_ceiling)
  have fl: "\<lfloor>i\<rfloor> < int (length a)" using fc assms(2) by linarith
  have c0: "0 \<le> \<lceil>i\<rceil>" using fc assms(1) by linarith
  have gl: "array_get a \<lfloor>i\<rfloor> = Some (a ! nat \<lfloor>i\<rfloor>)"
    unfolding array_get_def using assms(1) fl by (simp only: conj_commute if_True simp_thms)
  have gu: "array_get a \<lceil>i\<rceil> = Some (a ! nat \<lceil>i\<rceil>)"
    unfolding array_get_def using assms(2) c0 by (simp only: conj_commute if_True simp_thms)
  show ?thesis
  proof (cases "\<lfloor>i\<rfloor> = \<lceil>i\<rceil>")
    case True
    then show ?thesis
      unfolding calculatePercentile_def Let_def assms(3) [symmetric]
      using gl floor_eq_ceiling_frac [OF True]
      by (simp add: read_index_def)
  next
    case False
    then show ?thesis
      unfolding calculatePercentile_def Let_def assms(3) [symmetric]
      using gl gu by simp
  qed
qed

text \<open>
  C8. For an array of length at least 1 and a percentile between 0 and 100,
  \<open>calculatePercentile\<close> returns \<open>a[floor i] + (a[ceil i] - a[floor i]) * (i - floor i)\<close> with
  \<open>i = percentile / 100 * (n - 1)\<close>, both indices being inside the array (the array need
  not be sorted for this). For \<open>[10, 20, 30, 40]\<close> the 25th percentile is 17.5 and the
  75th is 32.5.
\<close>

theorem calculatePercentile_interpolates:
  "(a \<noteq> [] \<and> 0 \<le> p \<and> p \<le> 100 \<longrightarrow>
      (let i = (p / 100) * (real (length a) - 1) in
         0 \<le> \<lfloor>i\<rfloor> \<and> nat \<lceil>i\<rceil> < length a \<and>
         calculatePercentile a p =
           Number (Num (a ! nat \<lfloor>i\<rfloor> + (a ! nat \<lceil>i\<rceil> - a ! nat \<lfloor>i\<rfloor>) * (i - of_int \<lfloor>i\<rfloor>)))))
   \<and> calculatePercentile [10, 20, 30, 40] 25 = Number (Num 17.5)
   \<and> calculatePercentile [10, 20, 30, 40] 75 = Number (Num 32.5)"
proof (intro conjI impI)
  assume h: "a \<noteq> [] \<and> 0 \<le> p \<and> p \<le> 100"
  define i where "i = (p / 100) * (real (length a) - 1)"
  have f0: "0 \<le> \<lfloor>i\<rfloor>" and c1: "\<lceil>i\<rceil> < int (length a)"
    using percentile_index_range [of a p] h by (simp_all add: i_def)
  have fc: "\<lfloor>i\<rfloor> \<le> \<lceil>i\<rceil>" by (rule floor_le_ceiling)
  have "nat \<lceil>i\<rceil> < length a" using c1 f0 fc by linarith
  then show "let i = (p / 100) * (real (length a) - 1) in
         0 \<le> \<lfloor>i\<rfloor> \<and> nat \<lceil>i\<rceil> < length a \<and>
         calculatePercentile a p =
           Number (Num (a ! nat \<lfloor>i\<rfloor> + (a ! nat \<lceil>i\<rceil> - a ! nat \<lfloor>i\<rfloor>) * (i - of_int \<lfloor>i\<rfloor>)))"
    using f0 calculatePercentile_in_range [OF f0 c1 i_def] unfolding Let_def i_def by blast
next
  show "calculatePercentile [10, 20, 30, 40] 25 = Number (Num 17.5)"
    by (simp add: calculatePercentile_def Let_def array_get_def read_index_def)
next
  show "calculatePercentile [10, 20, 30, 40] 75 = Number (Num 32.5)"
    by (simp add: calculatePercentile_def Let_def array_get_def read_index_def)
qed

theorem calculatePercentile_interpolates_witness:
  "[1, 2, 4] \<noteq> ([]::real list) \<and> (0::real) \<le> 50 \<and> (50::real) \<le> 100
   \<and> calculatePercentile [1, 2, 4] 50 = Number (Num 2)
   \<and> calculatePercentile [1, 2, 4] 75 = Number (Num 3)"
  using calculatePercentile_interpolates [of "[1, 2, 4]" 50]
    calculatePercentile_interpolates [of "[1, 2, 4]" 75]
  by (simp add: Let_def)

subsection \<open>Quartiles of a sorted array\<close>

lemma sorted_nth_int_mono:
  assumes "sorted (s::real list)" "0 \<le> i" "i \<le> j" "j < int (length s)"
  shows "s ! nat i \<le> s ! nat j"
proof -
  have "nat i \<le> nat j" using assms(3) by linarith
  moreover have "nat j < length s" using assms(2,3,4) by linarith
  ultimately show ?thesis using assms(1) by (rule sorted_nth_mono [rotated])
qed

lemma ceiling_below_length:
  assumes "x \<le> real (length (s::real list)) - 1"
  shows "\<lceil>x\<rceil> < int (length s)"
proof -
  have "x \<le> of_int (int (length s) - 1)" using assms by simp
  then have "\<lceil>x\<rceil> \<le> int (length s) - 1" by (simp only: ceiling_le_iff)
  then show ?thesis by linarith
qed

lemma interpolate_bounds:
  assumes "sorted s" "0 \<le> x" "x \<le> real (length s) - 1"
  shows "s ! nat \<lfloor>x\<rfloor> \<le> interpolate s x" "interpolate s x \<le> s ! nat \<lceil>x\<rceil>"
proof -
  have c: "\<lceil>x\<rceil> < int (length s)" using assms(3) by (rule ceiling_below_length)
  have f0: "0 \<le> \<lfloor>x\<rfloor>" using assms(2) by simp
  have fc: "\<lfloor>x\<rfloor> \<le> \<lceil>x\<rceil>" by (rule floor_le_ceiling)
  have le: "s ! nat \<lfloor>x\<rfloor> \<le> s ! nat \<lceil>x\<rceil>"
    using assms(1) f0 fc c by (rule sorted_nth_int_mono)
  have t0: "0 \<le> x - of_int \<lfloor>x\<rfloor>" using of_int_floor_le [of x] by linarith
  have t1: "x - of_int \<lfloor>x\<rfloor> \<le> 1" using floor_correct [of x] by linarith
  have "0 \<le> (s ! nat \<lceil>x\<rceil> - s ! nat \<lfloor>x\<rfloor>) * (x - of_int \<lfloor>x\<rfloor>)"
    using le t0 by (intro mult_nonneg_nonneg) linarith+
  then show "s ! nat \<lfloor>x\<rfloor> \<le> interpolate s x" unfolding interpolate_def by linarith
  have "(s ! nat \<lceil>x\<rceil> - s ! nat \<lfloor>x\<rfloor>) * (x - of_int \<lfloor>x\<rfloor>) \<le> (s ! nat \<lceil>x\<rceil> - s ! nat \<lfloor>x\<rfloor>) * 1"
    using le t1 by (intro mult_left_mono) linarith+
  then have "(s ! nat \<lceil>x\<rceil> - s ! nat \<lfloor>x\<rfloor>) * (x - of_int \<lfloor>x\<rfloor>) \<le> s ! nat \<lceil>x\<rceil> - s ! nat \<lfloor>x\<rfloor>"
    by (simp only: mult_1_right)
  then show "interpolate s x \<le> s ! nat \<lceil>x\<rceil>" unfolding interpolate_def by linarith
qed

lemma interpolate_mono:
  assumes "sorted s" "0 \<le> x" "x \<le> y" "y \<le> real (length s) - 1"
  shows "interpolate s x \<le> interpolate s y"
proof (cases "\<lfloor>x\<rfloor> = \<lfloor>y\<rfloor>")
  case True
  have cy: "\<lceil>y\<rceil> < int (length s)" using assms(4) by (rule ceiling_below_length)
  have f0: "0 \<le> \<lfloor>y\<rfloor>" using assms(2,3) by simp
  have le: "s ! nat \<lfloor>y\<rfloor> \<le> s ! nat \<lceil>y\<rceil>"
    using assms(1) f0 floor_le_ceiling cy by (rule sorted_nth_int_mono)
  show ?thesis
  proof (cases "\<lceil>x\<rceil> = \<lceil>y\<rceil>")
    case same: True
    have "(s ! nat \<lceil>y\<rceil> - s ! nat \<lfloor>y\<rfloor>) * (x - of_int \<lfloor>y\<rfloor>)
          \<le> (s ! nat \<lceil>y\<rceil> - s ! nat \<lfloor>y\<rfloor>) * (y - of_int \<lfloor>y\<rfloor>)"
      using le assms(3) by (intro mult_left_mono) linarith+
    then show ?thesis unfolding interpolate_def True same by linarith
  next
    case False
    have "\<lceil>x\<rceil> \<le> \<lceil>y\<rceil>" using assms(3) by (rule ceiling_mono)
    then have "\<lceil>x\<rceil> < \<lceil>y\<rceil>" using False by linarith
    moreover have "\<lfloor>x\<rfloor> \<le> \<lceil>x\<rceil>" by (rule floor_le_ceiling)
    moreover have "\<lceil>y\<rceil> \<le> \<lfloor>y\<rfloor> + 1" using ceiling_diff_floor_le_1 [of y] by linarith
    ultimately have cx: "\<lceil>x\<rceil> = \<lfloor>x\<rfloor>" using True by linarith
    have "interpolate s x \<le> s ! nat \<lceil>x\<rceil>"
      using assms by (intro interpolate_bounds(2)) linarith+
    moreover have "s ! nat \<lfloor>y\<rfloor> \<le> interpolate s y"
      using assms by (intro interpolate_bounds(1)) linarith+
    ultimately show ?thesis unfolding cx True by linarith
  qed
next
  case False
  have fxy: "\<lfloor>x\<rfloor> \<le> \<lfloor>y\<rfloor>" using assms(3) by (rule floor_mono)
  then have lt: "\<lfloor>x\<rfloor> < \<lfloor>y\<rfloor>" using False by linarith
  then have "x < of_int \<lfloor>y\<rfloor>" by (simp only: floor_less_iff)
  then have "x \<le> of_int \<lfloor>y\<rfloor>" by linarith
  then have cxy: "\<lceil>x\<rceil> \<le> \<lfloor>y\<rfloor>" by (simp only: ceiling_le_iff)
  have c0: "0 \<le> \<lceil>x\<rceil>" using assms(2) by simp
  have "\<lceil>y\<rceil> < int (length s)" using assms(4) by (rule ceiling_below_length)
  then have "\<lfloor>y\<rfloor> < int (length s)" using floor_le_ceiling [of y] by linarith
  with assms(1) c0 cxy have mid: "s ! nat \<lceil>x\<rceil> \<le> s ! nat \<lfloor>y\<rfloor>"
    by (rule sorted_nth_int_mono)
  have "interpolate s x \<le> s ! nat \<lceil>x\<rceil>"
    using assms by (intro interpolate_bounds(2)) linarith+
  moreover have "s ! nat \<lfloor>y\<rfloor> \<le> interpolate s y"
    using assms by (intro interpolate_bounds(1)) linarith+
  ultimately show ?thesis using mid by linarith
qed

lemma percentile_as_interpolation:
  assumes "s \<noteq> []" "0 \<le> p" "p \<le> 100"
  shows "calculatePercentile s p = Number (Num (interpolate s ((p / 100) * (real (length s) - 1))))"
  unfolding interpolate_def
  using percentile_index_range(1,2) [OF assms]
  by (intro calculatePercentile_in_range) simp_all

lemma median_as_interpolation:
  assumes "s \<noteq> []"
  shows "calculateMedian s = Number (Num (interpolate s ((50 / 100) * (real (length s) - 1))))"
proof (cases "length s mod 2 = 0")
  case True
  then have "even (length s)" by (simp add: even_iff_mod_2_eq_zero)
  then obtain k where k: "length s = 2 * k" by (rule evenE)
  with assms have k1: "1 \<le> k" by (cases k) auto
  define x :: real where "x = (50 / 100) * (real (length s) - 1)"
  have x: "x = real k - 1 / 2" by (simp add: x_def k)
  have "x = of_int (int k - 1) + 1 / 2" using x by simp
  then have fl: "\<lfloor>x\<rfloor> = int k - 1" by (simp only: floor_eq_iff) (simp add: x)
  have "x = of_int (int k) - 1 / 2" using x by simp
  then have ce: "\<lceil>x\<rceil> = int k" by (simp only: ceiling_eq_iff) (simp add: x)
  have fr: "x - of_int \<lfloor>x\<rfloor> = 1 / 2" unfolding fl using x by simp
  have g1: "array_get s (int k - 1) = Some (s ! (k - 1))"
    using k k1 by (simp add: array_get_def nat_diff_distrib')
  have g2: "array_get s (int k) = Some (s ! k)"
    using k k1 by (simp add: array_get_def)
  have nf: "nat \<lfloor>x\<rfloor> = k - 1" unfolding fl using k1 by linarith
  have nc: "nat \<lceil>x\<rceil> = k" unfolding ce by simp
  have "interpolate s x = s ! nat \<lfloor>x\<rfloor> + (s ! nat \<lceil>x\<rceil> - s ! nat \<lfloor>x\<rfloor>) * (1 / 2)"
    unfolding interpolate_def by (simp only: fr)
  then have "interpolate s x = (s ! (k - 1) + s ! k) / 2"
    unfolding nf nc by (simp add: field_simps)
  moreover have "calculateMedian s = Number (Num ((s ! (k - 1) + s ! k) / 2))"
    using True g1 g2 by (simp add: calculateMedian_def Let_def k)
  ultimately show ?thesis by (simp add: x_def)
next
  case False
  then have "odd (length s)" by (simp add: even_iff_mod_2_eq_zero)
  then obtain k where k: "length s = 2 * k + 1" by (rule oddE)
  define x :: real where "x = (50 / 100) * (real (length s) - 1)"
  have x: "x = of_int (int k)" by (simp add: x_def k)
  have fl: "\<lfloor>x\<rfloor> = int k" unfolding x by (rule floor_of_int)
  have ce: "\<lceil>x\<rceil> = int k" unfolding x by (rule ceiling_of_int)
  have "interpolate s x = s ! k" unfolding interpolate_def fl ce by simp
  moreover have "calculateMedian s = Number (Num (s ! k))"
    using False by (simp add: calculateMedian_def Let_def k read_index_def array_get_def)
  ultimately show ?thesis by (simp add: x_def)
qed

lemma sorted_first_is_Min:
  assumes "sorted (s::real list)" "s \<noteq> []"
  shows "s ! 0 = Min (set s)"
proof (rule Min_eqI [symmetric])
  show "finite (set s)" by simp
  show "s ! 0 \<in> set s" using assms(2) by simp
  fix y assume "y \<in> set s"
  then obtain i where "i < length s" "s ! i = y" by (auto simp: in_set_conv_nth)
  then show "s ! 0 \<le> y" using sorted_nth_mono [OF assms(1), of 0 i] by simp
qed

lemma sorted_last_is_Max:
  assumes "sorted (s::real list)" "s \<noteq> []"
  shows "s ! (length s - 1) = Max (set s)"
proof (rule Max_eqI [symmetric])
  show "finite (set s)" by simp
  show "s ! (length s - 1) \<in> set s" using assms(2) by simp
  fix y assume "y \<in> set s"
  then obtain i where i: "i < length s" "s ! i = y" by (auto simp: in_set_conv_nth)
  then have "i \<le> length s - 1" by simp
  then show "y \<le> s ! (length s - 1)"
    using sorted_nth_mono [OF assms(1), of i "length s - 1"] i by simp
qed

subsection \<open>Aggregation\<close>

lemma bucket_of_empty: "bucket_of [] = None"
  by (simp add: bucket_of_def)

lemma bucket_of_nonempty:
  assumes "ps \<noteq> []"
  shows "\<exists>a b c. bucket_of ps =
           Some \<lparr> count = length ps, median = Number (Num b),
                  mean = toFixed_parsed 2 (foldl (+) 0 (sort ps) / real (length ps)),
                  minimum = Number (Num (Min (set ps))), maximum = Number (Num (Max (set ps))),
                  q1 = Number (Num a), q3 = Number (Num c) \<rparr>
         \<and> Min (set ps) \<le> a \<and> a \<le> b \<and> b \<le> c \<and> c \<le> Max (set ps)"
proof -
  define s where "s = sort ps"
  define n where "n = real (length s) - 1"
  have srt: "sorted s" and len: "length s = length ps" and st: "set s = set ps"
    by (simp_all add: s_def)
  have ne: "s \<noteq> []" using assms len by (cases s) simp_all
  have n0: "0 \<le> n" using ne by (cases s) (auto simp: n_def)
  define a where "a = interpolate s ((25 / 100) * n)"
  define b where "b = interpolate s ((50 / 100) * n)"
  define c where "c = interpolate s ((75 / 100) * n)"
  have q1: "calculatePercentile s 25 = Number (Num a)"
    unfolding a_def n_def by (rule percentile_as_interpolation [OF ne]) simp_all
  have q3: "calculatePercentile s 75 = Number (Num c)"
    unfolding c_def n_def by (rule percentile_as_interpolation [OF ne]) simp_all
  have md: "calculateMedian s = Number (Num b)"
    unfolding b_def n_def by (rule median_as_interpolation [OF ne])
  have mn: "read_index s 0 = Number (Num (Min (set ps)))"
    using ne sorted_first_is_Min [OF srt ne] by (simp add: read_index_def array_get_def st)
  have "nat (int (length s) - 1) = length s - 1" by linarith
  then have mx: "read_index s (int (length s) - 1) = Number (Num (Max (set ps)))"
    using ne sorted_last_is_Max [OF srt ne] by (simp add: read_index_def array_get_def st)
  have ab: "a \<le> b" unfolding a_def b_def using n0
    by (intro interpolate_mono [OF srt]) (simp_all add: n_def)
  have bc: "b \<le> c" unfolding b_def c_def using n0
    by (intro interpolate_mono [OF srt]) (simp_all add: n_def)
  have "interpolate s 0 \<le> a" unfolding a_def using n0
    by (intro interpolate_mono [OF srt]) (simp_all add: n_def)
  then have lo: "Min (set ps) \<le> a"
    using sorted_first_is_Min [OF srt ne] by (simp add: interpolate_def st)
  have "c \<le> interpolate s n" unfolding c_def using n0
    by (intro interpolate_mono [OF srt]) (simp_all add: n_def)
  moreover have "interpolate s n = s ! (length s - 1)"
  proof -
    have "n = of_int (int (length s) - 1)" by (simp add: n_def)
    then have "\<lfloor>n\<rfloor> = int (length s) - 1" "\<lceil>n\<rceil> = int (length s) - 1"
      by (simp_all only: floor_of_int ceiling_of_int)
    moreover have "nat (int (length s) - 1) = length s - 1" by linarith
    ultimately show ?thesis by (simp add: interpolate_def)
  qed
  ultimately have hi: "c \<le> Max (set ps)"
    using sorted_last_is_Max [OF srt ne] by (simp add: st)
  have "bucket_of ps =
           Some \<lparr> count = length ps, median = Number (Num b),
                  mean = toFixed_parsed 2 (foldl (+) 0 (sort ps) / real (length ps)),
                  minimum = Number (Num (Min (set ps))), maximum = Number (Num (Max (set ps))),
                  q1 = Number (Num a), q3 = Number (Num c) \<rparr>"
    using ne q1 q3 md mn mx by (simp add: bucket_of_def Let_def s_def [symmetric] len)
  then show ?thesis using lo ab bc hi by blast
qed

lemma group_record_plain:
  assumes "on_prototype h = Map.empty" "zipCode r \<notin> set inherited_keys"
  shows "group_record h r =
     h\<lparr> own := (own h)(zipCode r \<mapsto>
            (case own h (zipCode r) of Some g \<Rightarrow> g | None \<Rightarrow> Map.empty)
              (sizeCategory r \<mapsto>
                 (case (case own h (zipCode r) of Some g \<Rightarrow> g | None \<Rightarrow> Map.empty) (sizeCategory r) of
                    Some ps \<Rightarrow> ps | None \<Rightarrow> []) @ [pricePerAcre r])) \<rparr>"
  using assms
  by (auto simp: group_record_def holder_of_def inherited_keys_def Let_def
      split: option.splits)

lemma prices_of_snoc:
  "prices_of (rs @ [r]) z c =
     prices_of rs z c @ (if zipCode r = z \<and> sizeCategory r = c then [pricePerAcre r] else [])"
  by (simp add: prices_of_def)

lemma prices_of_Nil_iff:
  "prices_of rs z c = [] \<longleftrightarrow> \<not> (\<exists>r\<in>set rs. zipCode r = z \<and> sizeCategory r = c)"
  by (auto simp: prices_of_def filter_empty_conv)

lemma grouping:
  assumes "\<forall>r\<in>set rs. zipCode r \<notin> set inherited_keys"
  shows "on_prototype (foldl group_record empty_heap rs) = Map.empty \<and>
         own (foldl group_record empty_heap rs) =
           (\<lambda>z. if z \<in> zipCode ` set rs
                then Some (\<lambda>c. if prices_of rs z c = [] then None else Some (prices_of rs z c))
                else None)"
  using assms
proof (induction rs rule: rev_induct)
  case Nil
  show ?case by (simp add: empty_heap_def)
next
  case (snoc r rs)
  define h where "h = foldl group_record empty_heap rs"
  have ih: "on_prototype h = Map.empty"
    "own h = (\<lambda>z. if z \<in> zipCode ` set rs
                then Some (\<lambda>c. if prices_of rs z c = [] then None else Some (prices_of rs z c))
                else None)"
    using snoc by (simp_all add: h_def)
  have r: "zipCode r \<notin> set inherited_keys" using snoc.prems by simp
  have step: "foldl group_record empty_heap (rs @ [r]) = group_record h r"
    by (simp add: h_def)
  have nil: "prices_of rs (zipCode r) c = []" if "zipCode r \<notin> zipCode ` set rs" for c
    using that by (auto simp: prices_of_Nil_iff) (metis imageI)
  define h' where "h' = group_record h r"
  have h': "h' = h\<lparr>own := (own h)(zipCode r \<mapsto>
            (case own h (zipCode r) of Some g \<Rightarrow> g | None \<Rightarrow> Map.empty)
              (sizeCategory r \<mapsto>
                 (case (case own h (zipCode r) of Some g \<Rightarrow> g | None \<Rightarrow> Map.empty) (sizeCategory r) of
                    Some ps \<Rightarrow> ps | None \<Rightarrow> []) @ [pricePerAcre r]))\<rparr>"
    unfolding h'_def by (rule group_record_plain [OF ih(1) r])
  have A: "on_prototype h' = Map.empty" by (simp add: h' ih(1))
  have B: "own h' z =
          (if z \<in> zipCode ` set (rs @ [r])
           then Some (\<lambda>c. if prices_of (rs @ [r]) z c = [] then None
                         else Some (prices_of (rs @ [r]) z c))
           else None)" for z
  proof (cases "zipCode r \<in> zipCode ` set rs")
    case True
    then show ?thesis by (auto simp: h' ih(2) prices_of_snoc fun_eq_iff)
  next
    case False
    then show ?thesis by (auto simp: h' ih(2) prices_of_snoc nil fun_eq_iff)
  qed
  show ?case unfolding step h'_def [symmetric]
  proof (rule conjI)
    show "on_prototype h' = Map.empty" by (rule A)
    show "own h' = (\<lambda>z. if z \<in> zipCode ` set (rs @ [r])
           then Some (\<lambda>c. if prices_of (rs @ [r]) z c = [] then None
                         else Some (prices_of (rs @ [r]) z c))
           else None)"
      by (rule ext) (rule B)
  qed
qed

lemma bucket_grouped:
  assumes "\<forall>r\<in>set records. zipCode r \<notin> set inherited_keys"
  shows "bucket records z c = bucket_of (prices_of records z c)"
proof -
  have own: "own (foldl group_record empty_heap records) =
           (\<lambda>z. if z \<in> zipCode ` set records
                then Some (\<lambda>c. if prices_of records z c = [] then None
                              else Some (prices_of records z c))
                else None)"
    using grouping [OF assms] by blast
  show ?thesis
  proof (cases "z \<in> zipCode ` set records")
    case True
    then show ?thesis
      by (simp add: bucket_def generateMarketMatrix_def Let_def own bucket_of_empty)
  next
    case False
    then have "prices_of records z c = []" by (auto simp: prices_of_Nil_iff)
    with False show ?thesis
      by (simp add: bucket_def generateMarketMatrix_def Let_def own bucket_of_empty)
  qed
qed

text \<open>
  The aggregation on ordinary ZIP codes. When no record has a ZIP code that is a property
  name inherited from \<open>Object.prototype\<close>, \<open>generateMarketMatrix\<close> has a bucket for exactly
  the pairs of ZIP code and size category that occur among the records; its count is the
  number of records of the pair, and \<open>min \<le> q1 \<le> median \<le> q3 \<le> max\<close> with \<open>min\<close> and
  \<open>max\<close> the smallest and the largest price per acre of the pair.
\<close>

theorem generateMarketMatrix_buckets:
  assumes "\<forall>r\<in>set records. zipCode r \<notin> set inherited_keys"
  shows "(bucket records z c \<noteq> None) = (\<exists>r\<in>set records. zipCode r = z \<and> sizeCategory r = c)
    \<and> (\<forall>st. bucket records z c = Some st \<longrightarrow>
          count st = length (filter (\<lambda>r. zipCode r = z \<and> sizeCategory r = c) records)
          \<and> (\<exists>lo a b d hi.
                minimum st = Number (Num lo) \<and> q1 st = Number (Num a)
                \<and> median st = Number (Num b) \<and> q3 st = Number (Num d)
                \<and> maximum st = Number (Num hi)
                \<and> lo \<le> a \<and> a \<le> b \<and> b \<le> d \<and> d \<le> hi
                \<and> lo = Min (set (prices_of records z c))
                \<and> hi = Max (set (prices_of records z c))))"
proof (cases "prices_of records z c = []")
  case True
  then show ?thesis
    using prices_of_Nil_iff [of records z c]
    by (simp add: bucket_grouped [OF assms] bucket_of_empty)
next
  case False
  from bucket_of_nonempty [OF False] obtain a b d where
    st: "bucket_of (prices_of records z c) =
           Some \<lparr> count = length (prices_of records z c), median = Number (Num b),
                  mean = toFixed_parsed 2 (foldl (+) 0 (sort (prices_of records z c))
                            / real (length (prices_of records z c))),
                  minimum = Number (Num (Min (set (prices_of records z c)))),
                  maximum = Number (Num (Max (set (prices_of records z c)))),
                  q1 = Number (Num a), q3 = Number (Num d) \<rparr>"
    and ord: "Min (set (prices_of records z c)) \<le> a" "a \<le> b" "b \<le> d"
      "d \<le> Max (set (prices_of records z c))"
    by blast
  have len: "length (prices_of records z c)
      = length (filter (\<lambda>r. zipCode r = z \<and> sizeCategory r = c) records)"
    by (simp add: prices_of_def)
  show ?thesis
    using False prices_of_Nil_iff [of records z c] ord
    by (auto simp: bucket_grouped [OF assms] st len)
qed

theorem generateMarketMatrix_buckets_witness:
  "(\<forall>r\<in>set [listing ''32541'' Cat_1_3 30, listing ''32541'' Cat_1_3 10].
       zipCode r \<notin> set inherited_keys)
   \<and> bucket [listing ''32541'' Cat_1_3 30, listing ''32541'' Cat_1_3 10] ''32541'' Cat_1_3 \<noteq> None
   \<and> bucket [listing ''32541'' Cat_1_3 30, listing ''32541'' Cat_1_3 10] ''32541'' Cat_3_5 = None"
  using generateMarketMatrix_buckets
    [of "[listing ''32541'' Cat_1_3 30, listing ''32541'' Cat_1_3 10]" "''32541''" Cat_1_3]
   generateMarketMatrix_buckets
    [of "[listing ''32541'' Cat_1_3 30, listing ''32541'' Cat_1_3 10]" "''32541''" Cat_3_5]
  by (simp add: listing_def inherited_keys_def inherited_functions_def)

text \<open>
  C10. The claim asks for a bucket for every pair of ZIP code and size category that
  occurs among the records. A record whose ZIP code is \<open>constructor\<close> gets none:
  \<open>matrix['constructor']\<close> is the inherited function, the price is stored on it, and the
  result has no key at all.
\<close>

theorem generateMarketMatrix_inherited_key:
  "bucket [listing ''constructor'' Cat_0_025 435600] ''constructor'' Cat_0_025 = None
   \<and> generateMarketMatrix [listing ''constructor'' Cat_0_025 435600] = Map.empty"
  by (auto simp: bucket_def generateMarketMatrix_def group_record_def holder_of_def
      empty_heap_def inherited_functions_def listing_def)

subsection \<open>Ingestion\<close>

lemmas parse_defs = number_cell_def text_cell_def first_truthy_def parseFloat_def
  signed_literal_def unsigned_literal_def is_space_def is_digit_def digits_val_def
  digit_val_def exponent_part_def

lemma processRecord_without_zip:
  assumes "row ''ZIP OR POSTAL CODE'' \<in> {None, Some []}" "row ''Zip Code'' \<in> {None, Some []}"
  shows "processRecord row = None"
  using assms by (auto simp: processRecord_def text_cell_def first_truthy_def Let_def)

lemma processCsvFile_append:
  "processCsvFile (xs @ ys) = processCsvFile xs @ processCsvFile ys"
  by (simp add: processCsvFile_def List.map_filter_def)

text \<open>
  C6 (as amended). The row with PRICE 100000, LOT SIZE 10000 and ZIP OR POSTAL CODE 32541
  gives a record with acres 0.2296, price per acre 435600 (the price divided by the
  unrounded acreage) and size category \<open>0-0.25\<close>. A row whose ZIP value (column
  \<open>ZIP OR POSTAL CODE\<close>, else \<open>Zip Code\<close>) is missing or empty gives \<open>null\<close> and the records
  handed to the aggregation are those of the file without it.
\<close>

theorem processRecord_example:
  "map_option acres (processRecord
       [''PRICE'' \<mapsto> ''100000'', ''LOT SIZE'' \<mapsto> ''10000'', ''ZIP OR POSTAL CODE'' \<mapsto> ''32541''])
     = Some (Num 0.2296)
   \<and> map_option pricePerAcre (processRecord
       [''PRICE'' \<mapsto> ''100000'', ''LOT SIZE'' \<mapsto> ''10000'', ''ZIP OR POSTAL CODE'' \<mapsto> ''32541''])
     = Some (Num 435600)
   \<and> map_option (\<lambda>r. category_label (sizeCategory r)) (processRecord
       [''PRICE'' \<mapsto> ''100000'', ''LOT SIZE'' \<mapsto> ''10000'', ''ZIP OR POSTAL CODE'' \<mapsto> ''32541''])
     = Some ''0-0.25''
   \<and> (row ''ZIP OR POSTAL CODE'' \<in> {None, Some []} \<and> row ''Zip Code'' \<in> {None, Some []} \<longrightarrow>
        processRecord row = None
        \<and> processCsvFile (before @ row # after) = processCsvFile (before @ after))"
proof (intro conjI impI)
  show "map_option acres (processRecord
       [''PRICE'' \<mapsto> ''100000'', ''LOT SIZE'' \<mapsto> ''10000'', ''ZIP OR POSTAL CODE'' \<mapsto> ''32541''])
     = Some (Num 0.2296)"
    by (simp add: processRecord_def parse_defs Let_def toFixed_parsed_def)
  show "map_option pricePerAcre (processRecord
       [''PRICE'' \<mapsto> ''100000'', ''LOT SIZE'' \<mapsto> ''10000'', ''ZIP OR POSTAL CODE'' \<mapsto> ''32541''])
     = Some (Num 435600)"
    by (simp add: processRecord_def parse_defs Let_def toFixed_parsed_def)
  show "map_option (\<lambda>r. category_label (sizeCategory r)) (processRecord
       [''PRICE'' \<mapsto> ''100000'', ''LOT SIZE'' \<mapsto> ''10000'', ''ZIP OR POSTAL CODE'' \<mapsto> ''32541''])
     = Some ''0-0.25''"
    by (simp add: processRecord_def parse_defs Let_def categorizeLotSize_def)
next
  assume h: "row ''ZIP OR POSTAL CODE'' \<in> {None, Some []} \<and> row ''Zip Code'' \<in> {None, Some []}"
  then show none: "processRecord row = None" by (intro processRecord_without_zip) simp_all
  have "processCsvFile [row] = []" by (simp add: processCsvFile_def List.map_filter_def none)
  then show "processCsvFile (before @ row # after) = processCsvFile (before @ after)"
    using processCsvFile_append [of before "[row] @ after"] processCsvFile_append [of "[row]" after]
    by (simp add: processCsvFile_append)
qed

theorem processRecord_example_witness:
  "[''PRICE'' \<mapsto> ''100000'', ''LOT SIZE'' \<mapsto> ''10000''] ''ZIP OR POSTAL CODE'' \<in> {None, Some []}
   \<and> [''PRICE'' \<mapsto> ''100000'', ''LOT SIZE'' \<mapsto> ''10000''] ''Zip Code'' \<in> {None, Some []}
   \<and> processRecord [''PRICE'' \<mapsto> ''100000'', ''LOT SIZE'' \<mapsto> ''10000''] = None
   \<and> processCsvFile [[''PRICE'' \<mapsto> ''100000'', ''LOT SIZE'' \<mapsto> ''10000'']] = processCsvFile []"
  using processRecord_example [of "[''PRICE'' \<mapsto> ''100000'', ''LOT SIZE'' \<mapsto> ''10000'']" "[]" "[]"]
  by simp

text \<open>
  The claim as stated fails: the row it writes, with a column named \<open>ZIP\<close>, is dropped,
  and under the header the code reads the price per acre is 435600, not 435536.06.
\<close>

theorem processRecord_example_counterexample:
  "processRecord [''PRICE'' \<mapsto> ''100000'', ''LOT SIZE'' \<mapsto> ''10000'', ''ZIP'' \<mapsto> ''32541''] = None
   \<and> map_option pricePerAcre (processRecord
       [''PRICE'' \<mapsto> ''100000'', ''LOT SIZE'' \<mapsto> ''10000'', ''ZIP OR POSTAL CODE'' \<mapsto> ''32541''])
     = Some (Num 435600)
   \<and> \<not> \<bar>435600 - 435536.06\<bar> \<le> (1::real)"
  by (simp add: processRecord_def parse_defs Let_def toFixed_parsed_def)

subsection \<open>Query partitioner and ledger\<close>

lemma navigate_unfolded:
  "navigate answers 0 =
     (case answers 1 of
        None \<Rightarrow> None
      | Some m1 \<Rightarrow>
          (case answers 2 of
             None \<Rightarrow> None
           | Some m2 \<Rightarrow>
               (case answers 3 of
                  None \<Rightarrow> None
                | Some m3 \<Rightarrow> Some (''Failed to navigate after 3 attempts: '' @ m3))))"
proof -
  have n2: "navigate answers 2 =
      (case answers 3 of None \<Rightarrow> None
       | Some m3 \<Rightarrow> Some (''Failed to navigate after 3 attempts: '' @ m3))"
    by (subst navigate.simps) (simp add: eval_nat_numeral split: option.splits)
  have n1: "navigate answers 1 = (case answers 2 of None \<Rightarrow> None | Some m2 \<Rightarrow> navigate answers 2)"
    by (subst navigate.simps) (simp add: eval_nat_numeral split: option.splits)
  have n0: "navigate answers 0 = (case answers 1 of None \<Rightarrow> None | Some m1 \<Rightarrow> navigate answers 1)"
    by (subst navigate.simps) (simp add: eval_nat_numeral split: option.splits)
  show ?thesis unfolding n0 n1 n2 ..
qed


lemma getPriceRangesForSize_bounded:
  assumes "maxPrice sizeRange = Some cap" "cap \<noteq> 0"
    and "p \<in> set (getPriceRangesForSize sizeRange ranges)"
    and "price_max p = Some m"
  shows "m \<le> cap \<and> p \<in> set ranges"
  using assms by (auto simp: getPriceRangesForSize_def)

text \<open>
  C1. The claim excludes price ranges without upper bound when the size range has a price
  cap. The filter keeps them: for the size range \<open>0-0.25\<close> with \<open>maxPrice\<close> 190000, the
  range \<open>190000+\<close> with \<open>max: null\<close> is returned.
\<close>

theorem getPriceRangesForSize_keeps_unbounded:
  "maxPrice small_lots = Some 190000
   \<and> price_max above_190k = None
   \<and> getPriceRangesForSize small_lots [up_to_50k, above_190k] = [up_to_50k, above_190k]"
  by (simp add: getPriceRangesForSize_def small_lots_def up_to_50k_def above_190k_def)

lemmas run_defs = process_query_def try_query_def catch_query_def initial_state_def
  isAlreadyDownloaded_def logDownload_def logEntry_def json_object_def json_string_def
  json_char_def success_entry_def error_entry_def count_entry_def createSafeFilename_def
  safe_char_def digit_char_def show_int_def buildRedfinUrl_def truthy_path_def Let_def
  navigate_unfolded show_nat.simps

text \<open>
  C2. The claim asks that a query is skipped exactly when the ledger has a \<open>success\<close> entry
  for its key. After the query (\<open>Okaloosa\<close>, \<open>5+\<close>, \<open>0-50000\<close>) has been downloaded and
  logged, \<open>isAlreadyDownloaded\<close> is still false for it: the search key has the label \<open>5+\<close>,
  the logged file name has \<open>5_\<close>. In the other direction, the success entry of
  (\<open>1-3\<close>, \<open>0-50000\<close>) makes the query (\<open>1-3\<close>, \<open>0-5000\<close>), which has no entry, skipped.
\<close>

theorem isAlreadyDownloaded_misses_success:
  "map outcome (reports (process_query ''Okaloosa'' ''FL'' (initial_state None)
       (large_lots, up_to_50k) smooth_page)) = [Downloaded]
   \<and> \<not> isAlreadyDownloaded
         (logFile (process_query ''Okaloosa'' ''FL'' (initial_state None)
            (large_lots, up_to_50k) smooth_page))
         ''Okaloosa'' large_lots up_to_50k
   \<and> isAlreadyDownloaded
         (logFile (process_query ''Okaloosa'' ''FL'' (initial_state None)
            (mid_lots, up_to_50k) smooth_page))
         ''Okaloosa'' mid_lots up_to_5k"
  by (simp add: run_defs large_lots_def mid_lots_def up_to_50k_def up_to_5k_def smooth_page_def)

subsection \<open>Batch loop\<close>

lemma logDownload_text:
  "logDownload l ts e = Some (ledger_text l @ log_line ts e)"
  by (simp add: logDownload_def ledger_text_def log_line_def)

lemma process_query_reports:
  "\<exists>r. reports (process_query c st s q page) = reports s @ [r]"
  by (simp add: process_query_def Let_def)

lemma process_query_failed:
  assumes "try_query c (logFile s) (fst q) (snd q)
             (buildRedfinUrl st (fst q) (snd q) ''Land'' ''12mo'') page = Inl message"
  shows "reports (process_query c st s q page) =
           reports s @ [catch_query c (fst q) (snd q)
                          (buildRedfinUrl st (fst q) (snd q) ''Land'' ''12mo'') message]"
    and "logFile (process_query c st s q page) =
           logDownload (logFile s) (now_iso page)
             (error_entry c (fst q) (snd q) message
                (buildRedfinUrl st (fst q) (snd q) ''Land'' ''12mo''))"
    and "totalDownloads (process_query c st s q page) = totalDownloads s + 1"
  using assms by (simp_all add: process_query_def Let_def catch_query_def)

lemma process_query_ledger_grows:
  "\<exists>suffix. ledger_text (logFile (process_query c st s q page)) = ledger_text (logFile s) @ suffix"
  by (cases "logged (case try_query c (logFile s) (fst q) (snd q)
               (buildRedfinUrl st (fst q) (snd q) ''Land'' ''12mo'') page of
             Inl message \<Rightarrow> catch_query c (fst q) (snd q)
               (buildRedfinUrl st (fst q) (snd q) ''Land'' ''12mo'') message
           | Inr r \<Rightarrow> r)")
    (simp_all add: process_query_def Let_def logDownload_text ledger_text_def)

lemma process_query_report:
  "reports (process_query c st s q page) = reports s @ [query_report c st (logFile s) q page]"
  by (simp add: process_query_def query_report_def Let_def)

text \<open>
  When every click returns and no login prompt appears, each download promise is
  awaited; if moreover no wait in a \<open>catch\<close> block throws, the loop reaches every query
  and finishes, whatever fails inside the \<open>try\<close> blocks.
\<close>

lemma timed_query_awaited:
  assumes "promise_awaited page" "catch_wait ticks = None" "pending s = []"
  shows "timed_query c st s q page ticks =
           (\<lparr> progress = process_query c st (progress s) q page,
              clock = clock s + until_log ticks
                      + pause (query_report c st (logFile (progress s)) q page),
              pending = [] \<rparr>, None)"
proof -
  have "(case outcome (query_report c st (logFile (progress s)) q page) of
           Failed message \<Rightarrow> catch_wait ticks | _ \<Rightarrow> None) = None"
    using assms(2) by (simp split: outcome.splits)
  moreover have "\<not> second_promise_abandoned page"
    using assms(1) by (simp add: promise_awaited_def second_promise_abandoned_def)
  ultimately show ?thesis
    using assms(1,3) by (simp add: timed_query_def Let_def)
qed

lemma run_queries_awaited:
  assumes "\<And>i. promise_awaited (pages i)" "\<And>i. catch_wait (clocks i) = None"
  shows "pending s = [] \<Longrightarrow>
         snd (run_queries c st pages clocks i s qs) = Completed
         \<and> length (reports (progress (fst (run_queries c st pages clocks i s qs))))
             = length (reports (progress s)) + length qs"
proof (induction qs arbitrary: i s)
  case Nil
  show ?case by simp
next
  case (Cons q qs)
  define s' where "s' = \<lparr> progress = process_query c st (progress s) q (pages i),
              clock = clock s + until_log (clocks i)
                      + pause (query_report c st (logFile (progress s)) q (pages i)),
              pending = [] \<rparr>"
  have step: "timed_query c st s q (pages i) (clocks i) = (s', None)"
    unfolding s'_def using assms Cons.prems by (intro timed_query_awaited)
  have "pending s' = []" by (simp add: s'_def)
  from Cons.IH [OF this, of "i + 1"] show ?case
    by (simp add: step) (simp add: s'_def process_query_report)
qed

lemma downloadRedfinData_completes:
  assumes "\<And>i. promise_awaited (pages i)" "\<And>i. catch_wait (clocks i) = None"
  shows "snd (downloadRedfinData cfg l pages clocks) = Completed"
    and "length (reports (progress (fst (downloadRedfinData cfg l pages clocks))))
           = length (queries cfg)"
  using run_queries_awaited [of pages clocks
      "\<lparr> progress = initial_state l, clock = 0, pending = [] \<rparr>"
      "county cfg" "state cfg" 0 "queries cfg"] assms
  by (simp_all add: downloadRedfinData_def initial_state_def)

text \<open>
  A query whose login fails is reported as a failure and leaves its download promise
  pending. A pending promise whose time comes before a later iteration calls
  \<open>logDownload\<close>, with no download event in that iteration, ends the process, and that
  iteration leaves nothing in the ledger.
\<close>

lemma login_failure_leaves_promise:
  assumes "promise_created c (logFile (progress s)) (fst q) (snd q) page"
    and "click page = None" "login_prompt page" "login page = Inr False"
  shows "outcome (query_report c st (logFile (progress s)) q page) = Failed ''Login failed''"
    and "clock s + until_promise ticks + 60000
           \<in> set (pending (fst (timed_query c st s q page ticks)))"
proof -
  show "outcome (query_report c st (logFile (progress s)) q page) = Failed ''Login failed''"
    using assms
    by (simp add: query_report_def try_query_def promise_created_def catch_query_def Let_def)
  have "\<not> download_event_seen page" "\<not> promise_awaited page"
    using assms by (simp_all add: download_event_seen_def promise_awaited_def)
  then show "clock s + until_promise ticks + 60000
           \<in> set (pending (fst (timed_query c st s q page ticks)))"
    using assms(1) by (simp add: timed_query_def Let_def split: option.splits)
qed

lemma earliest_le:
  "d \<in> set ds \<Longrightarrow> \<exists>e. earliest ds = Some e \<and> e \<le> d"
  by (induction ds) (auto split: option.splits)

lemma pending_promise_ends_process:
  assumes "d \<in> set (pending s)" "\<not> download_event_seen page"
    and "d < clock s + until_log ticks"
  shows "snd (timed_query c st s q page ticks) = Some Unhandled_rejection"
    and "progress (fst (timed_query c st s q page ticks)) = progress s"
    and "clock (fst (timed_query c st s q page ticks)) \<le> d"
proof -
  define created where "created = promise_created c (logFile (progress s)) (fst q) (snd q) page"
  define deadlines where "deadlines = pending s
       @ (if created \<and> \<not> promise_awaited page then [clock s + until_promise ticks + 60000] else [])
       @ (if created \<and> second_promise_abandoned page
          then [clock s + until_second_promise ticks + 60000] else [])"
  have "d \<in> set deadlines" using assms(1) by (simp add: deadlines_def)
  then obtain e where e: "earliest deadlines = Some e" "e \<le> d"
    using earliest_le by blast
  define r where "r = query_report c st (logFile (progress s)) q page"
  define thrown where
    "thrown = (case outcome r of Failed message \<Rightarrow> catch_wait ticks | _ \<Rightarrow> None)"
  define leaves where
    "leaves = (case thrown of None \<Rightarrow> clock s + until_log ticks + pause r
               | Some message \<Rightarrow> clock s + until_log ticks)"
  have "clock s + until_log ticks \<le> leaves" by (simp add: leaves_def split: option.splits)
  then have lt: "e < leaves" "\<not> clock s + until_log ticks < e" using e(2) assms(3) by simp_all
  have step: "timed_query c st s q page ticks
      = (\<lparr> progress = progress s, clock = e, pending = deadlines \<rparr>, Some Unhandled_rejection)"
    using assms(2) e(1) lt
    by (simp add: timed_query_def Let_def created_def [symmetric] deadlines_def [symmetric]
        r_def [symmetric] thrown_def [symmetric] leaves_def [symmetric])
  show "snd (timed_query c st s q page ticks) = Some Unhandled_rejection"
    by (simp add: step)
  show "progress (fst (timed_query c st s q page ticks)) = progress s"
    by (simp add: step)
  show "clock (fst (timed_query c st s q page ticks)) \<le> d"
    using e(2) by (simp add: step)
qed

lemmas clock_defs = downloadRedfinData_def queries_def getPriceRangesForSize_def
  timed_query_def query_report_def promise_created_def promise_awaited_def
  second_promise_abandoned_def download_event_seen_def

text \<open>
  C3. The claim asks that no failure of a single query ends the run. Take a run of three
  queries on an empty ledger in which the login prompt appears and the login fails. The
  failure of the first query is caught and logged and the loop goes on; but the download
  promise of that query, created 20 seconds into the run and never awaited, rejects at
  second 80, while the second query is being processed. The process ends there: the run
  has one report, the ledger one line, and the second and third query are never logged.
  This is so when every login fails, and also when only the first one fails and the
  download of the second query arrives after second 80.
\<close>

theorem login_failure_ends_run:
  "length (queries three_price_config) = 3
   \<and> run_summary (downloadRedfinData three_price_config None every_login_fails steady_clock)
       = (Unhandled_rejection, [Failed ''Login failed''], 1, 80000)
   \<and> run_summary (downloadRedfinData three_price_config None first_login_fails steady_clock)
       = (Unhandled_rejection, [Failed ''Login failed''], 1, 80000)"
  by (simp add: run_summary_def ledger_text_def clock_defs run_defs three_price_config_def
      every_login_fails_def first_login_fails_def steady_clock_def mid_lots_def up_to_5k_def
      up_to_50k_def above_190k_def login_failing_page_def smooth_page_def)

text \<open>
  On a quicker clock the download of the second query arrives before the promise of the
  first one rejects, and the run reaches all its queries and finishes.
\<close>

lemma run_survives_on_quick_clock:
  "run_summary (downloadRedfinData two_price_config None first_login_fails quick_clock)
     = (Completed, [Failed ''Login failed'', Downloaded], 2, 39000)"
  by (simp add: run_summary_def ledger_text_def clock_defs run_defs two_price_config_def
      first_login_fails_def quick_clock_def mid_lots_def up_to_5k_def up_to_50k_def
      login_failing_page_def smooth_page_def)

text \<open>
  When the page has been closed by the time of the click, the click throws, the failure
  is logged, and the wait in the \<open>catch\<close> block throws as well: the exception leaves the
  loop after the first query.
\<close>

lemma closed_page_ends_run:
  "run_summary (downloadRedfinData three_price_config None (\<lambda>i. closed_page) closed_page_clock)
     = (Thrown ''page.waitForTimeout: Target page, context or browser has been closed'',
        [Failed ''locator.click: Target page, context or browser has been closed''],
        1, 7000)"
  by (simp add: run_summary_def ledger_text_def clock_defs run_defs three_price_config_def
      closed_page_def closed_page_clock_def mid_lots_def up_to_5k_def up_to_50k_def
      above_190k_def smooth_page_def)

lemma try_query_failures:
  assumes "\<not> isAlreadyDownloaded l c sizeRange priceRange"
  shows "goto page 1 = Some e1 \<Longrightarrow> goto page 2 = Some e2 \<Longrightarrow> goto page 3 = Some e3 \<Longrightarrow>
           try_query c l sizeRange priceRange url page
             = Inl (''Failed to navigate after 3 attempts: '' @ e3)"
    and "goto page 1 = None \<Longrightarrow> 0 < result_count page \<Longrightarrow> download_button page \<Longrightarrow>
           click page = None \<Longrightarrow> login_prompt page \<Longrightarrow> login page = Inr False \<Longrightarrow>
           try_query c l sizeRange priceRange url page = Inl ''Login failed''"
    and "goto page 1 = None \<Longrightarrow> 0 < result_count page \<Longrightarrow> download_button page \<Longrightarrow>
           click page = None \<Longrightarrow> \<not> login_prompt page \<Longrightarrow> download page = Inl e \<Longrightarrow>
           try_query c l sizeRange priceRange url page = Inl e"
  using assms by (simp_all add: try_query_def navigate_unfolded)

lemma try_query_returns:
  assumes "try_query c l sizeRange priceRange url page = Inr r"
  shows "r = \<lparr> outcome = Skipped, logged = None, pause = 0 \<rparr>
    \<or> r = \<lparr> outcome = No_results,
             logged = Some (count_entry c sizeRange priceRange 0 ''no_results'' url),
             pause = 0 \<rparr>
    \<or> r = \<lparr> outcome = No_download_button,
             logged = Some (count_entry c sizeRange priceRange (result_count page)
                              ''no_download_button'' url),
             pause = 0 \<rparr>
    \<or> r = \<lparr> outcome = Downloaded,
             logged = Some (success_entry c sizeRange priceRange (result_count page)
                              (createSafeFilename c sizeRange priceRange (now_ms page)) url),
             pause = (if login_prompt page then 5000 else 15000) \<rparr>"
  using assms unfolding try_query_def
  by (simp split: if_splits option.splits sum.splits)

lemma logged_status:
  "logged (case try_query c l sizeRange priceRange url page of
             Inl message \<Rightarrow> catch_query c sizeRange priceRange url message
           | Inr r \<Rightarrow> r) = Some entry
   \<Longrightarrow> map_of entry ''status'' \<in>
         {Some (JString ''success''), Some (JString ''error''),
          Some (JString ''no_results''), Some (JString ''no_download_button'')}"
proof (cases "try_query c l sizeRange priceRange url page")
  case (Inl message)
  assume "logged (case try_query c l sizeRange priceRange url page of
             Inl message \<Rightarrow> catch_query c sizeRange priceRange url message
           | Inr r \<Rightarrow> r) = Some entry"
  with Inl show ?thesis by (auto simp: catch_query_def error_entry_def)
next
  case (Inr r)
  assume "logged (case try_query c l sizeRange priceRange url page of
             Inl message \<Rightarrow> catch_query c sizeRange priceRange url message
           | Inr r \<Rightarrow> r) = Some entry"
  with Inr have "logged r = Some entry" by simp
  with try_query_returns [OF Inr] show ?thesis
    by (auto simp: success_entry_def count_entry_def)
qed

text \<open>
  C4 (as amended). When the \<open>try\<close> block of a query throws, the entry appended to the
  ledger has status \<open>error\<close> and the message of the exception; every entry the loop logs
  has one of the statuses \<open>success\<close>, \<open>error\<close>, \<open>no_results\<close>, \<open>no_download_button\<close>.
\<close>

theorem failed_query_logged_as_error:
  "(try_query c (logFile s) (fst q) (snd q)
      (buildRedfinUrl st (fst q) (snd q) ''Land'' ''12mo'') page = Inl message \<longrightarrow>
      logFile (process_query c st s q page) =
        logDownload (logFile s) (now_iso page)
          (error_entry c (fst q) (snd q) message
             (buildRedfinUrl st (fst q) (snd q) ''Land'' ''12mo''))
      \<and> map_of (error_entry c (fst q) (snd q) message
                  (buildRedfinUrl st (fst q) (snd q) ''Land'' ''12mo'')) ''status''
          = Some (JString ''error'')
      \<and> map_of (error_entry c (fst q) (snd q) message
                  (buildRedfinUrl st (fst q) (snd q) ''Land'' ''12mo'')) ''error''
          = Some (JString message))
   \<and> (logged (last (reports (process_query c st s q page))) = Some entry \<longrightarrow>
        map_of entry ''status'' \<in>
          {Some (JString ''success''), Some (JString ''error''),
           Some (JString ''no_results''), Some (JString ''no_download_button'')})"
proof (intro conjI impI)
  assume t: "try_query c (logFile s) (fst q) (snd q)
      (buildRedfinUrl st (fst q) (snd q) ''Land'' ''12mo'') page = Inl message"
  show "logFile (process_query c st s q page) =
        logDownload (logFile s) (now_iso page)
          (error_entry c (fst q) (snd q) message
             (buildRedfinUrl st (fst q) (snd q) ''Land'' ''12mo''))"
    by (rule process_query_failed(2) [OF t])
next
  show "map_of (error_entry c (fst q) (snd q) message
                  (buildRedfinUrl st (fst q) (snd q) ''Land'' ''12mo'')) ''status''
          = Some (JString ''error'')"
    by (simp add: error_entry_def)
next
  show "map_of (error_entry c (fst q) (snd q) message
                  (buildRedfinUrl st (fst q) (snd q) ''Land'' ''12mo'')) ''error''
          = Some (JString message)"
    by (simp add: error_entry_def)
next
  assume "logged (last (reports (process_query c st s q page))) = Some entry"
  then have "logged (case try_query c (logFile s) (fst q) (snd q)
                 (buildRedfinUrl st (fst q) (snd q) ''Land'' ''12mo'') page of
               Inl message \<Rightarrow> catch_query c (fst q) (snd q)
                 (buildRedfinUrl st (fst q) (snd q) ''Land'' ''12mo'') message
             | Inr r \<Rightarrow> r) = Some entry"
    by (simp add: process_query_def Let_def)
  then show "map_of entry ''status'' \<in>
          {Some (JString ''success''), Some (JString ''error''),
           Some (JString ''no_results''), Some (JString ''no_download_button'')}"
    by (rule logged_status)
qed

theorem failed_query_logged_as_error_witness:
  "try_query ''Okaloosa'' (logFile (initial_state None)) (fst (mid_lots, up_to_50k))
      (snd (mid_lots, up_to_50k))
      (buildRedfinUrl ''FL'' (fst (mid_lots, up_to_50k)) (snd (mid_lots, up_to_50k))
         ''Land'' ''12mo'') login_failing_page = Inl ''Login failed''
   \<and> logFile (process_query ''Okaloosa'' ''FL'' (initial_state None) (mid_lots, up_to_50k)
        login_failing_page) =
        logDownload (logFile (initial_state None)) (now_iso login_failing_page)
          (error_entry ''Okaloosa'' mid_lots up_to_50k ''Login failed''
             (buildRedfinUrl ''FL'' mid_lots up_to_50k ''Land'' ''12mo''))"
proof -
  have h: "try_query ''Okaloosa'' (logFile (initial_state None)) (fst (mid_lots, up_to_50k))
      (snd (mid_lots, up_to_50k))
      (buildRedfinUrl ''FL'' (fst (mid_lots, up_to_50k)) (snd (mid_lots, up_to_50k))
         ''Land'' ''12mo'') login_failing_page = Inl ''Login failed''"
    by (simp add: initial_state_def try_query_def isAlreadyDownloaded_def
        login_failing_page_def smooth_page_def navigate_unfolded)
  show ?thesis
    using failed_query_logged_as_error
      [of "''Okaloosa''" "initial_state None" "(mid_lots, up_to_50k)" "''FL''"
          login_failing_page "''Login failed''"] h
    by simp
qed

text \<open>
  The claim as stated fails: the entry logged for a query whose login failed has status
  \<open>error\<close>, not \<open>failed\<close>.
\<close>

theorem failed_query_status_counterexample:
  "map (\<lambda>r. map_option (\<lambda>e. map_of e ''status'') (logged r))
     (reports (process_query ''Okaloosa'' ''FL'' (initial_state None) (mid_lots, up_to_50k)
        login_failing_page))
     = [Some (Some (JString ''error''))]
   \<and> JString ''error'' \<noteq> JString ''failed''"
  by (simp add: process_query_def Let_def initial_state_def try_query_def
      isAlreadyDownloaded_def catch_query_def error_entry_def login_failing_page_def
      smooth_page_def navigate_unfolded)

lemma pause_by_outcome:
  assumes "r = (case try_query c l sizeRange priceRange url page of
             Inl message \<Rightarrow> catch_query c sizeRange priceRange url message
           | Inr r \<Rightarrow> r)"
  shows "outcome r = Failed m \<Longrightarrow> pause r = 10000"
    and "outcome r = Downloaded \<Longrightarrow> pause r = (if login_prompt page then 5000 else 15000)"
proof -
  show "outcome r = Failed m \<Longrightarrow> pause r = 10000"
  proof (cases "try_query c l sizeRange priceRange url page")
    case (Inl message)
    then show ?thesis using assms by (simp add: catch_query_def)
  next
    case (Inr r')
    assume "outcome r = Failed m"
    with try_query_returns [OF Inr] assms Inr show ?thesis by auto
  qed
  show "outcome r = Downloaded \<Longrightarrow> pause r = (if login_prompt page then 5000 else 15000)"
  proof (cases "try_query c l sizeRange priceRange url page")
    case (Inl message)
    assume "outcome r = Downloaded"
    with Inl assms show ?thesis by (simp add: catch_query_def)
  next
    case (Inr r')
    assume "outcome r = Downloaded"
    with try_query_returns [OF Inr] assms Inr show ?thesis by auto
  qed
qed

text \<open>
  C9. The claim asks for a longer pause after a failed attempt than after a successful
  one. The loop waits 10000 ms after a failure and 15000 ms after a download without
  login prompt.
\<close>

theorem pause_after_failure_is_shorter:
  "map (\<lambda>r. (outcome r, pause r))
     (reports (process_query ''Okaloosa'' ''FL'' (initial_state None) (mid_lots, up_to_50k)
        login_failing_page))
     = [(Failed ''Login failed'', 10000)]
   \<and> map (\<lambda>r. (outcome r, pause r))
     (reports (process_query ''Okaloosa'' ''FL'' (initial_state None) (mid_lots, up_to_50k)
        smooth_page))
     = [(Downloaded, 15000)]
   \<and> (10000::nat) < 15000"
  by (simp add: process_query_def Let_def initial_state_def try_query_def
      isAlreadyDownloaded_def catch_query_def truthy_path_def login_failing_page_def
      smooth_page_def navigate_unfolded)

subsection \<open>Capture of one download\<close>

lemma browser_direct_unchanged: "browser_direct c a url = c"
  by (simp add: browser_direct_def browser_direct_try_def
      split: sum.splits prod.splits option.splits)

lemma fetch_one_first: "fetch_one fuel (a \<lparr> intercepted_first := x \<rparr>) cs i c u n = fetch_one fuel a cs i c u n"
  by (simp add: fetch_one_def browser_direct_unchanged Let_def split: option.splits fetch_result.splits)

lemma fetch_one_second: "fetch_one fuel (a \<lparr> intercepted_second := x \<rparr>) cs i c u n = fetch_one fuel a cs i c u n"
  by (simp add: fetch_one_def browser_direct_unchanged Let_def split: option.splits fetch_result.splits)

lemma fetch_urls_first: "fetch_urls fuel (a \<lparr> intercepted_first := x \<rparr>) cs i c us = fetch_urls fuel a cs i c us"
  by (induction us arbitrary: i c) (simp_all add: fetch_one_first split: option.splits)

lemma fetch_urls_second: "fetch_urls fuel (a \<lparr> intercepted_second := x \<rparr>) cs i c us = fetch_urls fuel a cs i c us"
  by (induction us arbitrary: i c) (simp_all add: fetch_one_second split: option.splits)

lemma after_login_first: "after_login (a \<lparr> intercepted_first := x \<rparr>) = after_login a"
  by (simp add: after_login_def split: option.splits sum.splits)

lemma traditional_download_first:
  "traditional_download c (a \<lparr> intercepted_first := x \<rparr>) = traditional_download c a"
  by (simp add: traditional_download_def split: option.splits sum.splits download_event.splits)

lemma traditional_download_second:
  "traditional_download c (a \<lparr> intercepted_second := x \<rparr>) = traditional_download c a"
  by (simp add: traditional_download_def split: option.splits sum.splits download_event.splits)

lemma save_intercepted_empty_text:
  "save_intercepted c (Text []) u t = save_intercepted c Nothing u t"
  by (simp add: save_intercepted_def)

lemma after_login_second:
  "intercepted_second a = Text [] \<Longrightarrow> after_login (a \<lparr> intercepted_second := Nothing \<rparr>) = after_login a"
  by (simp add: after_login_def save_intercepted_empty_text split: option.splits sum.splits)

lemma simpleDownload_unfolded:
  "simpleDownload fuel a =
     (case first_click a of
        Some message \<Rightarrow> Some no_capture
      | None \<Rightarrow>
          if intercepted_truthy (intercepted_first a)
          then Some (save_intercepted no_capture (intercepted_first a) (csv_url_first a)
                       (iso_time a))
          else
            (case after_login a of
               Inl message \<Rightarrow> Some no_capture
             | Inr c0 \<Rightarrow>
                 if \<not> downloadSuccess (traditional_download c0 a) then
                       (if page_closed a then Some (traditional_download c0 a)
                        else if download_urls a \<noteq> [] then
                          (case session_cookies a of
                             Inl message \<Rightarrow> Some (traditional_download c0 a)
                           | Inr cs \<Rightarrow> fetch_urls fuel a cs 0 (traditional_download c0 a)
                                        (download_urls a))
                        else Some (traditional_download c0 a))
                     else Some (traditional_download c0 a)))"
  by (simp add: simpleDownload_def Let_def split: option.splits sum.splits)

lemma simpleDownload_empty_first:
  assumes "first_click a = None" "intercepted_first a = Text []"
  shows "simpleDownload fuel a = simpleDownload fuel (a \<lparr> intercepted_first := Nothing \<rparr>)"
  unfolding simpleDownload_unfolded
  using assms
  by (simp add: after_login_first traditional_download_first fetch_urls_first
      cong: sum.case_cong option.case_cong if_cong)

lemma simpleDownload_empty_second:
  assumes "intercepted_second a = Text []"
  shows "simpleDownload fuel a = simpleDownload fuel (a \<lparr> intercepted_second := Nothing \<rparr>)"
  unfolding simpleDownload_unfolded
  using assms
  by (simp add: after_login_second traditional_download_second fetch_urls_second
      cong: sum.case_cong option.case_cong if_cong)

lemma traditional_download_logs:
  assumes "download_event a = Download (Inr (Some p)) bytes" "p \<noteq> []" "renamed a = None"
  shows "traditional_download c a =
           add_success c
             (capture_entry ''success''
                (''okaloosa-land-sold-1yr-'' @ file_stamp (iso_time a) @ ''.csv'')
                (file_stamp (iso_time a)) ''traditional'' [])
             (''okaloosa-land-sold-1yr-'' @ file_stamp (iso_time a) @ ''.csv'') bytes"
  using assms by (simp add: traditional_download_def truthy_path_def)

lemma direct_fetch_logs:
  assumes "\<not> (str_includes url ''redfin.com'' \<and> \<not> str_includes url ''/api/gis-csv''
            \<and> \<not> str_includes url ''.csv'' \<and> \<not> prefix ''blob:'' url)"
    and "server a url (cookie_header cs) = Response 200 statusMessage location body"
  shows "fetch_one (Suc fuel) a cs i c url name =
        Some (add_success c
                (capture_entry ''success''
                   (''okaloosa-land-sold-1yr-'' @ file_stamp (iso_time a) @ ''-''
                      @ show_nat (i + 1) @ ''.'' @ fileExtension url name)
                   (file_stamp (iso_time a)) ''direct_url'' [(''originalUrl'', JString url)])
                (''okaloosa-land-sold-1yr-'' @ file_stamp (iso_time a) @ ''-''
                   @ show_nat (i + 1) @ ''.'' @ fileExtension url name)
                body)"
  using assms by (auto simp: fetch_one_def Let_def)

text \<open>
  A rejected fetch is logged with status \<open>failed\<close> and the message of the rejection; the
  browser fallback does not change that. A redirect without \<open>Location\<close> is such a
  rejection.
\<close>

lemma failed_direct_fetch_logged:
  assumes "downloadFileFromUrl fuel (server a) url
             (''okaloosa-land-sold-1yr-'' @ file_stamp (iso_time a) @ ''-''
                @ show_nat (i + 1) @ ''.'' @ fileExtension url name) cs = Some (Rejected message)"
    and "\<not> (str_includes url ''redfin.com'' \<and> \<not> str_includes url ''/api/gis-csv''
            \<and> \<not> str_includes url ''.csv'' \<and> \<not> prefix ''blob:'' url)"
    and "\<not> downloadSuccess c"
  shows "fetch_one fuel a cs i c url name =
           Some (c \<lparr> entries := entries c @ [failed_entry message (file_stamp (iso_time a)) url] \<rparr>)"
    and "map_of (failed_entry message (file_stamp (iso_time a)) url) ''status''
           = Some (JString ''failed'')"
  using assms by (auto simp: fetch_one_def Let_def failed_entry_def browser_direct_unchanged)

lemma redirect_without_location_rejects:
  assumes "srv url (cookie_header cs) = Response 302 statusMessage None body"
  shows "downloadFileFromUrl (Suc fuel) srv url targetPath cs
           = Some (Rejected ''Cannot read properties of undefined (reading 'startsWith')'')"
  using assms by simp

text \<open>
  \<open>directDownload.js\<close> does check the size: a response with status 200 and an empty body
  is saved but not logged.
\<close>

lemma directDownload_checks_size:
  "directDownload_request (Response 200 statusMessage location []) isoString = Inr []"
  and "body \<noteq> [] \<Longrightarrow>
       map (\<lambda>e. (map_of e ''status'', map_of e ''fileSize''))
         (projr (directDownload_request (Response 200 statusMessage location body) isoString))
       = [(Some (JString ''success''), Some (JNumber (int (length body))))]"
  by (simp_all add: directDownload_request_def)

text \<open>
  C5. The claim asks that a capture of zero bytes is never recorded as a success. The
  script has such a check where it looks at the intercepted response: an empty text is
  falsy, after the first click and after the login, and nothing is logged for it, while
  a text that is not empty is saved and logged. The two paths the claim names have no
  check: a download event that delivers a file of zero bytes is moved and logged with
  status \<open>success\<close> and method \<open>traditional\<close>, and a direct fetch answered with status 200
  and an empty body is logged with status \<open>success\<close> and method \<open>direct_url\<close>.
\<close>

theorem zero_byte_capture_logged_as_success:
  "map_option (\<lambda>c. (map (\<lambda>e. (map_of e ''status'', map_of e ''method'')) (entries c),
                     map snd (files c)))
     (simpleDownload 1 empty_download)
     = Some ([(Some (JString ''success''), Some (JString ''traditional''))], [[]])
   \<and> map_option (\<lambda>c. (map (\<lambda>e. (map_of e ''status'', map_of e ''method'')) (entries c),
                     map snd (files c)))
     (simpleDownload 1 empty_reply)
     = Some ([(Some (JString ''success''), Some (JString ''direct_url''))], [[]])
   \<and> simpleDownload 1 empty_interception = Some no_capture
   \<and> simpleDownload 1 (interception_after_login []) = Some no_capture
   \<and> map_option (\<lambda>c. (map (\<lambda>e. (map_of e ''status'', map_of e ''method'')) (entries c),
                     map snd (files c)))
     (simpleDownload 1 (interception_after_login ''ADDRESS,PRICE''))
     = Some ([(Some (JString ''success''), Some (JString ''network_interception''))],
             [''ADDRESS,PRICE''])"
  by (simp add: empty_download_def empty_reply_def empty_interception_def
      interception_after_login_def quiet_answers_def simpleDownload_def
      after_login_def traditional_download_def save_intercepted_def no_capture_def
      add_success_def truthy_path_def cookie_header_def capture_entry_def fetch_one_def Let_def)

end
